theory Spec2Isabelle
  imports Main "HOL-Library.Sublist" "HOL-Library.AList" "HOL-Library.Word"
begin

unbundle bit_operations_syntax

section \<open>Data model of conda\_vendor.py\<close>

text \<open>
  The solution returned by conda-lock is a dictionary with an \<^verbatim>\<open>actions\<close> entry
  holding the FETCH and LINK lists and a \<^verbatim>\<open>success\<close> flag.  A fetch action carries
  the fields listed in the comment at the head of the source file; of a link action the
  source reads only \<^verbatim>\<open>base_url\<close>, so the remaining fields stay in the record's
  extension.
\<close>

record fetch_action =
  channel :: string
  "constrains" :: "string list option"
  depends :: "string list option"
  fn :: string
  md5 :: string
  sha256 :: "string option"
  name :: string
  subdir :: string
  timestamp :: int
  url :: string
  version :: string

record link_action =
  base_url :: string

record 'z solution =
  success :: bool
  FETCH :: "fetch_action list"
  LINK :: "'z link_action_scheme list"

section \<open>Removing the virtual-package channel\<close>

text \<open>
  The two loops of \<^verbatim>\<open>_remove_channel\<close>: an entry is skipped (\<^verbatim>\<open>continue\<close>) when
  its channel starts with the given channel, respectively when its base url equals it;
  every other entry is appended to the new list.
\<close>

fun remove_channel_fetch :: "string \<Rightarrow> fetch_action list \<Rightarrow> fetch_action list \<Rightarrow> fetch_action list" where
  "remove_channel_fetch ch [] fetch = fetch"
| "remove_channel_fetch ch (entry # rest) fetch =
     (if prefix ch (channel entry) then remove_channel_fetch ch rest fetch
      else remove_channel_fetch ch rest (fetch @ [entry]))"

fun remove_channel_link :: "string \<Rightarrow> 'z link_action_scheme list \<Rightarrow> 'z link_action_scheme list \<Rightarrow> 'z link_action_scheme list" where
  "remove_channel_link ch [] link = link"
| "remove_channel_link ch (entry # rest) link =
     (if base_url entry = ch then remove_channel_link ch rest link
      else remove_channel_link ch rest (link @ [entry]))"

definition remove_channel :: "'z solution \<Rightarrow> string \<Rightarrow> 'z solution" where
  "remove_channel sol ch =
     sol\<lparr>FETCH := remove_channel_fetch ch (FETCH sol) [],
         LINK := remove_channel_link ch (LINK sol) []\<rparr>"

section \<open>Paths, files and effects\<close>

text \<open>
  A path is the list of the components of an absolute \<^verbatim>\<open>pathlib.Path\<close>.  The
  operator \<^verbatim>\<open>/\<close> of pathlib splits its right operand at the separator, drops empty
  and \<^verbatim>\<open>.\<close> components, and starts afresh when the operand is absolute.  Paths are
  compared as written: \<^verbatim>\<open>..\<close> and symbolic links are not resolved.
\<close>

type_synonym byte = "8 word"
type_synonym path = "string list"

fun split_on :: "char \<Rightarrow> string \<Rightarrow> string list" where
  "split_on c [] = [[]]"
| "split_on c (x # xs) =
     (if x = c then [] # split_on c xs
      else (case split_on c xs of [] \<Rightarrow> [[x]] | w # ws \<Rightarrow> (x # w) # ws))"

definition parts :: "string \<Rightarrow> string list" where
  "parts s = filter (\<lambda>p. p \<noteq> [] \<and> p \<noteq> ''.'') (split_on CHR ''/'' s)"

definition is_absolute :: "string \<Rightarrow> bool" where
  "is_absolute s = (case s of [] \<Rightarrow> False | c # _ \<Rightarrow> c = CHR ''/'')"

definition joinpath :: "path \<Rightarrow> string \<Rightarrow> path" where
  "joinpath p s = (if is_absolute s then parts s else p @ parts s)"

definition path_name :: "path \<Rightarrow> string" where
  "path_name p = (if p = [] then [] else last p)"

text \<open>
  The index document fetched from a channel (\<^verbatim>\<open>live_repodata_json\<close>): each of its two
  partitions may be missing.  A partition is a dictionary from file name to the entry's
  metadata, kept as an association list in the order of the document; the metadata is
  opaque to the program.  The document written (\<^verbatim>\<open>repo_data\<close>) has the subdirectory
  name under \<^verbatim>\<open>info\<close> and both partitions.
\<close>

record 'e live_repodata =
  packages :: "(string \<times> 'e) list option"
  packages_conda :: "(string \<times> 'e) list option"

record 'e repo_data =
  info_subdir :: string
  rd_packages :: "(string \<times> 'e) list"
  rd_packages_conda :: "(string \<times> 'e) list"

record resource =
  res_url :: string
  res_filename :: string
  validation_type :: string
  validation_value :: "string option"

datatype 'e content =
    Artifact "byte list"
  | Repodata_json "'e repo_data"
  | Manifest "resource list"

text \<open>
  What a run does to the outside, in order: the solver is called, a URL is requested, a
  directory is made, a file is written.  What is printed on the standard output is
  kept apart, see \<open>echo\<close> below.
\<close>

datatype event =
    Solve
  | Download string
  | Mkdir path
  | Write path

fun is_write :: "event \<Rightarrow> bool" where
  "is_write (Write p) = True"
| "is_write _ = False"

record 'e world =
  dirs :: "path set"
  files :: "path \<rightharpoonup> 'e content"
  trace :: "event list"

datatype exit_arg = Code int | Message string

datatype error =
    SystemExit exit_arg
  | AssertionError
  | FileExistsError
  | FileNotFoundError
  | NotADirectoryError
  | IsADirectoryError
  | ConnectionError
  | JSONDecodeError
  | SolverError
  | EnvironmentFileError
  | VirtualPackageError
  | KeyError
  | ReconstructError

text \<open>\<^verbatim>\<open>sys.exit\<close> with a string prints it and exits with status 1.\<close>

fun exit_code :: "exit_arg \<Rightarrow> int" where
  "exit_code (Code n) = n"
| "exit_code (Message s) = 1"

type_synonym 'e run = "error option \<times> 'e world"

definition record_event :: "event \<Rightarrow> 'e world \<Rightarrow> 'e world" where
  "record_event ev w = w\<lparr>trace := trace w @ [ev]\<rparr>"

definition path_exists :: "'e world \<Rightarrow> path \<Rightarrow> bool" where
  "path_exists w p = (p \<in> dirs w \<or> files w p \<noteq> None)"

definition is_dir :: "'e world \<Rightarrow> path \<Rightarrow> bool" where
  "is_dir w p = (p \<in> dirs w)"

text \<open>
  \<^verbatim>\<open>Path.mkdir\<close> without \<^verbatim>\<open>parents\<close> and \<^verbatim>\<open>exist_ok\<close>.  The state
  names the directories and files by their paths without \<^verbatim>\<open>..\<close>, which \<^verbatim>\<open>pathlib\<close>
  keeps in a path as it is written.  Every directory has the entry \<^verbatim>\<open>..\<close>, so a path
  that ends in it under a directory names something that exists.
\<close>

definition mkdir :: "path \<Rightarrow> 'e world \<Rightarrow> 'e run" where
  "mkdir p w =
     (if path_exists w p then (Some FileExistsError, w)
      else if files w (butlast p) \<noteq> None then (Some NotADirectoryError, w)
      else if butlast p \<notin> dirs w then (Some FileNotFoundError, w)
      else if p \<noteq> [] \<and> last p = ''..'' then (Some FileExistsError, w)
      else (None, record_event (Mkdir p) (w\<lparr>dirs := insert p (dirs w)\<rparr>)))"

text \<open>Opening a file for writing and writing the whole content.\<close>

definition write_file :: "path \<Rightarrow> 'e content \<Rightarrow> 'e world \<Rightarrow> 'e run" where
  "write_file p c w =
     (if p \<in> dirs w then (Some IsADirectoryError, w)
      else if files w (butlast p) \<noteq> None then (Some NotADirectoryError, w)
      else if butlast p \<notin> dirs w then (Some FileNotFoundError, w)
      else (None, record_event (Write p) (w\<lparr>files := (files w)(p \<mapsto> c)\<rparr>)))"

section \<open>Solving\<close>

text \<open>
  The lines that \<^verbatim>\<open>vendor\<close> and \<^verbatim>\<open>solve_environment\<close> print with \<^verbatim>\<open>click.echo\<close>,
  in the order of the source: the status lines, without their colours, and the JSON
  dump of the package list.  They all go to the standard output.
\<close>

datatype echo =
    Vendoring_file string
  | Destination_exists path
  | Dry_run_notice
  | Using_solver string
  | Solving_for_platform string
  | Solving_for_spec "string list"
  | Virtual_packages_header
  | Virtual_package string string
  | Failed_to_solve "string list"
  | Using_for string string
  | Successful_solve
  | Dry_run_complete
  | Json "fetch_action list"
  | Checksums_validated
  | Vendoring_complete
  | Vendored_channel path

fun is_json :: "echo \<Rightarrow> bool" where
  "is_json (Json package_list) = True"
| "is_json _ = False"

text \<open>
  What conda-lock hands to the program.  A lock specification has the dependencies, each
  with a name and a version constraint, and the channels; the repository of virtual
  packages has the packages of each platform it was made for and the URL of its channel.
\<close>

record versioned_dependency =
  dep_name :: string
  dep_version :: string

record lock_specification =
  dependencies :: "versioned_dependency list"
  spec_channels :: "string list"

record virtual_package =
  vp_name :: string
  vp_version :: string

record fake_repo_data =
  all_repodata :: "string \<rightharpoonup> (string \<times> virtual_package) list"
  channel_url :: string

text \<open>
  The calls into conda-lock, as they turn out in one run: the parsed environment file,
  the repository of virtual packages, the solver and the reconstruction of the fetch
  actions; \<open>None\<close> stands for a call that raises.  conda-lock and the solver write files
  of their own (the virtual packages are stored in a temporary directory), so each call
  that can do so comes with the change it makes to the directories and files.
\<close>

type_synonym 'e filesystem = "path set \<times> (path \<rightharpoonup> 'e content)"

record ('e, 'z) conda_lock =
  parse_environment_file :: "lock_specification option"
  virtual_package_repo :: "fake_repo_data option"
  virtual_package_files :: "'e filesystem \<Rightarrow> 'e filesystem"
  solve_specs_for_arch :: "string \<Rightarrow> string list \<Rightarrow> string list \<Rightarrow> string \<Rightarrow> 'z solution option"
  solver_files :: "'e filesystem \<Rightarrow> 'e filesystem"
  reconstruct_fetch_actions :: "string \<Rightarrow> string \<Rightarrow> 'z solution \<Rightarrow> 'z solution option"
  reconstruct_files :: "'e filesystem \<Rightarrow> 'e filesystem"

definition conda_lock_writes :: "('e filesystem \<Rightarrow> 'e filesystem) \<Rightarrow> 'e world \<Rightarrow> 'e world" where
  "conda_lock_writes f w =
     w\<lparr>dirs := fst (f (dirs w, files w)), files := snd (f (dirs w, files w))\<rparr>"

text \<open>
  \<^verbatim>\<open>_get_query_list\<close>; \<^verbatim>\<open>isnumeric\<close> is taken on ASCII, where it holds of the
  decimal digits.
\<close>

definition isnumeric :: "char \<Rightarrow> bool" where
  "isnumeric c = (c \<in> set ''0123456789'')"

fun get_query_list_loop :: "versioned_dependency list \<Rightarrow> string list \<Rightarrow> string list" where
  "get_query_list_loop [] specs = specs"
| "get_query_list_loop (dep # deps) specs =
     (case dep_version dep of
        [] \<Rightarrow> get_query_list_loop deps (specs @ [dep_name dep])
      | c # _ \<Rightarrow>
          if isnumeric c
          then get_query_list_loop deps (specs @ [dep_name dep @ ''=='' @ dep_version dep])
          else get_query_list_loop deps (specs @ [dep_name dep @ dep_version dep]))"

definition get_query_list :: "lock_specification \<Rightarrow> string list" where
  "get_query_list lock_spec = get_query_list_loop (dependencies lock_spec) []"

text \<open>
  \<^verbatim>\<open>solve_environment\<close>, with the lines it prints.  The lookup of the platform among
  the virtual packages raises \<^verbatim>\<open>KeyError\<close> when the repository was not made for it.
\<close>

definition solve_environment ::
  "('e, 'z) conda_lock \<Rightarrow> string \<Rightarrow> string \<Rightarrow> 'e world
     \<Rightarrow> ((error + fetch_action list) \<times> 'e world) \<times> echo list" where
  "solve_environment cl solver platform w =
     (case parse_environment_file cl of
        None \<Rightarrow> ((Inl EnvironmentFileError, w), [])
      | Some lock_spec \<Rightarrow>
          (let specs = get_query_list lock_spec;
               w1 = conda_lock_writes (virtual_package_files cl) w
           in case virtual_package_repo cl of
                None \<Rightarrow> ((Inl VirtualPackageError, w1), [])
              | Some virt_pkgs \<Rightarrow>
                  (let out1 = [Using_solver solver, Solving_for_platform platform,
                               Solving_for_spec specs, Virtual_packages_header]
                   in case all_repodata virt_pkgs platform of
                        None \<Rightarrow> ((Inl KeyError, w1), out1)
                      | Some pkgs \<Rightarrow>
                          (let out2 = out1 @ map (\<lambda>(_, pkg). Virtual_package (vp_name pkg)
                                                       (vp_version pkg)) pkgs;
                               channels = spec_channels lock_spec @ [channel_url virt_pkgs];
                               w2 = record_event Solve (conda_lock_writes (solver_files cl) w1)
                           in case solve_specs_for_arch cl solver channels specs platform of
                                None \<Rightarrow> ((Inl SolverError, w2), out2)
                              | Some sol \<Rightarrow>
                                  (let solution = remove_channel sol (channel_url virt_pkgs) in
                                   if \<not> success solution
                                   then ((Inl (SystemExit (Code 1)), w2),
                                         out2 @ [Failed_to_solve specs, Using_for solver platform])
                                   else
                                     (let out3 = out2 @ [Successful_solve];
                                          w3 = conda_lock_writes (reconstruct_files cl) w2
                                      in case reconstruct_fetch_actions cl solver platform
                                                solution of
                                           None \<Rightarrow> ((Inl ReconstructError, w3), out3)
                                         | Some patched_solution \<Rightarrow>
                                             ((Inr (FETCH patched_solution), w3), out3)))))))"

section \<open>Index reconstruction\<close>

text \<open>
  One loop of \<^verbatim>\<open>_reconstruct_repodata_json\<close> over the items of a partition: an entry
  whose file name is among the valid names is stored under its name in the output
  dictionary.
\<close>

fun retain :: "string list \<Rightarrow> (string \<times> 'e) list \<Rightarrow> (string \<times> 'e) list \<Rightarrow> (string \<times> 'e) list" where
  "retain valid_names [] out = out"
| "retain valid_names ((nm, entry) # items) out =
     (if nm \<in> set valid_names then retain valid_names items (AList.update nm entry out)
      else retain valid_names items out)"

text \<open>\<^verbatim>\<open>d.get(key, {})\<close> on the fetched document.\<close>

definition get_partition :: "(string \<times> 'e) list option \<Rightarrow> (string \<times> 'e) list" where
  "get_partition part = (case part of None \<Rightarrow> [] | Some d \<Rightarrow> d)"

definition reconstruct_repodata ::
  "path \<Rightarrow> fetch_action list \<Rightarrow> 'e live_repodata \<Rightarrow> 'e repo_data" where
  "reconstruct_repodata dest_dir package_list live_repodata_json =
     (let valid_names = map fn package_list;
          pkgs = get_partition (packages live_repodata_json);
          pkgs_dot_conda = get_partition (packages_conda live_repodata_json)
      in \<lparr>info_subdir = path_name dest_dir,
          rd_packages = retain valid_names pkgs [],
          rd_packages_conda = retain valid_names pkgs_dot_conda []\<rparr>)"

text \<open>
  \<^verbatim>\<open>_reconstruct_repodata_json\<close>: \<open>http_get\<close> is \<^verbatim>\<open>_improved_download\<close> (the body
  of the response, or \<open>None\<close> when the retries are exhausted), \<open>json_of\<close> is the
  response's \<^verbatim>\<open>json()\<close> (\<open>None\<close> when the body is no JSON object with dictionary
  partitions).
\<close>

definition reconstruct_repodata_json ::
  "(string \<Rightarrow> byte list option) \<Rightarrow> (byte list \<Rightarrow> 'e live_repodata option)
     \<Rightarrow> string \<Rightarrow> path \<Rightarrow> fetch_action list \<Rightarrow> 'e world \<Rightarrow> 'e run" where
  "reconstruct_repodata_json http_get json_of repodata_url dest_dir package_list w =
     (let w1 = record_event (Download repodata_url) w in
      case http_get repodata_url of
        None \<Rightarrow> (Some ConnectionError, w1)
      | Some body \<Rightarrow>
          (case json_of body of
             None \<Rightarrow> (Some JSONDecodeError, w1)
           | Some live_repodata_json \<Rightarrow>
               write_file (joinpath dest_dir ''repodata.json'')
                 (Repodata_json (reconstruct_repodata dest_dir package_list live_repodata_json)) w1))"

text \<open>
  \<^verbatim>\<open>create_repodata_json\<close>.  The nested loops run over every subdirectory and, for
  each, over the channels that contain it as a substring; \<open>listing\<close> stands for
  \<^verbatim>\<open>list(set(...))\<close>, whose order Python does not fix.
\<close>

definition repodata_jobs :: "string list \<Rightarrow> string list \<Rightarrow> (string \<times> string) list" where
  "repodata_jobs channels subdirs =
     concat (map (\<lambda>sd. map (\<lambda>ch. (sd, ch)) (filter (\<lambda>ch. sublist sd ch) channels)) subdirs)"

fun reconstruct_all ::
  "(string \<Rightarrow> byte list option) \<Rightarrow> (byte list \<Rightarrow> 'e live_repodata option)
     \<Rightarrow> fetch_action list \<Rightarrow> path \<Rightarrow> (string \<times> string) list \<Rightarrow> 'e world \<Rightarrow> 'e run" where
  "reconstruct_all http_get json_of package_list vendored_root [] w = (None, w)"
| "reconstruct_all http_get json_of package_list vendored_root ((sd, ch) # jobs) w =
     (case reconstruct_repodata_json http_get json_of (ch @ ''/repodata.json'')
             (joinpath vendored_root sd) package_list w of
        (Some e, w1) \<Rightarrow> (Some e, w1)
      | (None, w1) \<Rightarrow> reconstruct_all http_get json_of package_list vendored_root jobs w1)"

definition create_repodata_json ::
  "(string \<Rightarrow> byte list option) \<Rightarrow> (byte list \<Rightarrow> 'e live_repodata option)
     \<Rightarrow> (string list \<Rightarrow> string list) \<Rightarrow> fetch_action list \<Rightarrow> path \<Rightarrow> 'e world \<Rightarrow> 'e run" where
  "create_repodata_json http_get json_of listing package_list vendored_root w =
     (let channels = listing (map channel package_list);
          subdirs = listing (map subdir package_list)
      in reconstruct_all http_get json_of package_list vendored_root
           (repodata_jobs channels subdirs) w)"

section \<open>Downloading and verifying\<close>

text \<open>
  \<^verbatim>\<open>download_packages\<close>; \<open>hexdigest\<close> is \<^verbatim>\<open>hashlib.sha256(data).hexdigest()\<close>.
  The comparison is Python's \<^verbatim>\<open>!=\<close> between the computed string and the descriptor's
  \<^verbatim>\<open>sha256\<close> field.
\<close>

definition artifact_path :: "path \<Rightarrow> fetch_action \<Rightarrow> path" where
  "artifact_path vendored_root pkg = joinpath (joinpath vendored_root (subdir pkg)) (fn pkg)"

fun download_packages ::
  "(byte list \<Rightarrow> string) \<Rightarrow> (string \<Rightarrow> byte list option)
     \<Rightarrow> fetch_action list \<Rightarrow> path \<Rightarrow> string \<Rightarrow> 'e world \<Rightarrow> 'e run" where
  "download_packages hexdigest http_get [] vendored_root platform w = (None, w)"
| "download_packages hexdigest http_get (pkg # pkgs) vendored_root platform w =
     (let dest_dir = joinpath vendored_root (subdir pkg) in
      if \<not> (path_exists w dest_dir \<and> is_dir w dest_dir) then (Some AssertionError, w)
      else
        (let w1 = record_event (Download (url pkg)) w in
         case http_get (url pkg) of
           None \<Rightarrow> (Some ConnectionError, w1)
         | Some file_data \<Rightarrow>
             if Some (hexdigest file_data) \<noteq> sha256 pkg
             then (Some (SystemExit (Message ''SHA256 Checksum Validation Failed'')), w1)
             else
               (case write_file (joinpath dest_dir (fn pkg)) (Artifact file_data) w1 of
                  (Some e, w2) \<Rightarrow> (Some e, w2)
                | (None, w2) \<Rightarrow>
                    download_packages hexdigest http_get pkgs vendored_root platform w2)))"

section \<open>The manifest and the vendor command\<close>

definition yaml_dump_ironbank_manifest :: "path \<Rightarrow> fetch_action list \<Rightarrow> 'e world \<Rightarrow> 'e run" where
  "yaml_dump_ironbank_manifest cwd package_list w =
     write_file (joinpath cwd ''ib_manifest.yaml'')
       (Manifest (map (\<lambda>pkg. \<lparr>res_url = url pkg, res_filename = fn pkg,
                              validation_type = ''sha256'', validation_value = sha256 pkg\<rparr>)
                   package_list)) w"

text \<open>The three \<^verbatim>\<open>Path.mkdir\<close> calls of a run that is not a dry run.\<close>

definition make_directories :: "path \<Rightarrow> string \<Rightarrow> 'e world \<Rightarrow> 'e run" where
  "make_directories vendored_root platform w =
     (case mkdir vendored_root w of
        (Some e, w1) \<Rightarrow> (Some e, w1)
      | (None, w1) \<Rightarrow>
          (case mkdir (joinpath vendored_root platform) w1 of
             (Some e, w2) \<Rightarrow> (Some e, w2)
           | (None, w2) \<Rightarrow> mkdir (joinpath vendored_root ''noarch'') w2))"

text \<open>
  \<^verbatim>\<open>vendor\<close>.  \<open>environment_name\<close> is the result of \<^verbatim>\<open>_get_environment_name\<close>
  (\<open>None\<close> when the file cannot be read or has no name), \<open>cwd\<close> is \<^verbatim>\<open>Path.cwd()\<close>.
  The result has the outcome and the state, and with them what \<^verbatim>\<open>vendor\<close> and
  \<^verbatim>\<open>solve_environment\<close> have printed.  The lines and progress bars that
  \<^verbatim>\<open>create_repodata_json\<close>, \<^verbatim>\<open>download_packages\<close> and
  \<^verbatim>\<open>yaml_dump_ironbank_manifest\<close> print in a run that is not a dry run are not among them.
\<close>

definition vendor ::
  "(byte list \<Rightarrow> string) \<Rightarrow> (string \<Rightarrow> byte list option)
     \<Rightarrow> (byte list \<Rightarrow> 'e live_repodata option) \<Rightarrow> (string list \<Rightarrow> string list)
     \<Rightarrow> ('e, 'z) conda_lock \<Rightarrow> string option \<Rightarrow> path
     \<Rightarrow> string \<Rightarrow> string \<Rightarrow> string \<Rightarrow> bool \<Rightarrow> bool \<Rightarrow> 'e world
     \<Rightarrow> 'e run \<times> echo list" where
  "vendor hexdigest http_get json_of listing cl environment_name cwd
          file solver platform dry_run ironbank_gen w =
     (let out0 = [Vendoring_file file] in
      case environment_name of
        None \<Rightarrow> ((Some EnvironmentFileError, w), out0)
      | Some env_name \<Rightarrow>
          (let vendored_root = joinpath cwd env_name in
           if path_exists w vendored_root
           then ((Some (SystemExit (Code 1)), w), out0 @ [Destination_exists vendored_root])
           else
             (case (if dry_run then ((None, w), out0 @ [Dry_run_notice])
                    else (make_directories vendored_root platform w, out0)) of
                ((Some e, w1), out1) \<Rightarrow> ((Some e, w1), out1)
              | ((None, w1), out1) \<Rightarrow>
                  (case solve_environment cl solver platform w1 of
                     ((Inl e, w2), out2) \<Rightarrow> ((Some e, w2), out1 @ out2)
                   | ((Inr package_list, w2), out2) \<Rightarrow>
                       if dry_run
                       then ((Some (SystemExit (Code 0)), w2),
                             out1 @ out2 @ [Dry_run_complete, Json package_list])
                       else
                         (case create_repodata_json http_get json_of listing package_list
                                 vendored_root w2 of
                            (Some e, w3) \<Rightarrow> ((Some e, w3), out1 @ out2)
                          | (None, w3) \<Rightarrow>
                              (case download_packages hexdigest http_get package_list
                                      vendored_root platform w3 of
                                 (Some e, w4) \<Rightarrow> ((Some e, w4), out1 @ out2)
                               | (None, w4) \<Rightarrow>
                                   (let out3 = out1 @ out2 @ [Checksums_validated,
                                          Vendoring_complete, Vendored_channel vendored_root]
                                    in if ironbank_gen
                                       then (yaml_dump_ironbank_manifest cwd package_list w4, out3)
                                       else ((None, w4), out3))))))))"

section \<open>SHA-256\<close>

text \<open>
  \<^verbatim>\<open>hashlib.sha256(data).hexdigest()\<close> after FIPS 180-4: the message is padded to whole
  blocks of sixteen 32-bit words, each block is expanded to sixty-four words and
  compressed into the eight words of the state, and the final state is printed as
  sixty-four lower-case hexadecimal digits.  The functions of the program take the
  digest function as a parameter; the examples use this one.  The round constants and
  the initial state are given as decimal numerals.
\<close>

type_synonym u32 = "32 word"

definition rotr :: "nat \<Rightarrow> u32 \<Rightarrow> u32" where
  "rotr n x = (drop_bit n x) OR (push_bit (32 - n) x)"

definition Ch :: "u32 \<Rightarrow> u32 \<Rightarrow> u32 \<Rightarrow> u32" where
  "Ch x y z = (x AND y) XOR (NOT x AND z)"

definition Maj :: "u32 \<Rightarrow> u32 \<Rightarrow> u32 \<Rightarrow> u32" where
  "Maj x y z = (x AND y) XOR (x AND z) XOR (y AND z)"

definition Sigma0 :: "u32 \<Rightarrow> u32" where
  "Sigma0 x = rotr 2 x XOR rotr 13 x XOR rotr 22 x"

definition Sigma1 :: "u32 \<Rightarrow> u32" where
  "Sigma1 x = rotr 6 x XOR rotr 11 x XOR rotr 25 x"

definition sigma0 :: "u32 \<Rightarrow> u32" where
  "sigma0 x = rotr 7 x XOR rotr 18 x XOR drop_bit 3 x"

definition sigma1 :: "u32 \<Rightarrow> u32" where
  "sigma1 x = rotr 17 x XOR rotr 19 x XOR drop_bit 10 x"

definition K256 :: "u32 list" where
  "K256 =
    [1116352408, 1899447441, 3049323471, 3921009573, 961987163, 1508970993,
     2453635748, 2870763221, 3624381080, 310598401, 607225278, 1426881987,
     1925078388, 2162078206, 2614888103, 3248222580, 3835390401, 4022224774,
     264347078, 604807628, 770255983, 1249150122, 1555081692, 1996064986,
     2554220882, 2821834349, 2952996808, 3210313671, 3336571891, 3584528711,
     113926993, 338241895, 666307205, 773529912, 1294757372, 1396182291,
     1695183700, 1986661051, 2177026350, 2456956037, 2730485921, 2820302411,
     3259730800, 3345764771, 3516065817, 3600352804, 4094571909, 275423344,
     430227734, 506948616, 659060556, 883997877, 958139571, 1322822218,
     1537002063, 1747873779, 1955562222, 2024104815, 2227730452, 2361852424,
     2428436474, 2756734187, 3204031479, 3329325298]"

definition H256 :: "u32 list" where
  "H256 =
    [1779033703, 3144134277, 1013904242, 2773480762, 1359893119, 2600822924,
     528734635, 1541459225]"

definition be64 :: "nat \<Rightarrow> byte list" where
  "be64 n = map (\<lambda>s. ucast (drop_bit s (of_nat n :: 64 word))) [56, 48, 40, 32, 24, 16, 8, 0]"

definition pad :: "byte list \<Rightarrow> byte list" where
  "pad m = m @ [0x80] @ replicate ((119 - length m mod 64) mod 64) 0 @ be64 (8 * length m)"

fun be32s :: "byte list \<Rightarrow> u32 list" where
  "be32s (a # b # c # d # rest) =
     (push_bit 24 (ucast a) OR push_bit 16 (ucast b) OR push_bit 8 (ucast c) OR ucast d) # be32s rest"
| "be32s _ = []"

fun extend :: "nat \<Rightarrow> u32 list \<Rightarrow> u32 list" where
  "extend (Suc n) [w0, w1, w2, w3, w4, w5, w6, w7, w8, w9, w10, w11, w12, w13, w14, w15] =
     (let w16 = sigma1 w14 + w9 + sigma0 w1 + w0
      in w16 # extend n [w1, w2, w3, w4, w5, w6, w7, w8, w9, w10, w11, w12, w13, w14, w15, w16])"
| "extend _ _ = []"

definition schedule :: "u32 list \<Rightarrow> u32 list" where
  "schedule block = block @ extend 48 block"

fun round256 :: "u32 list \<Rightarrow> (u32 \<times> u32) \<Rightarrow> u32 list" where
  "round256 [a, b, c, d, e, f, g, h] (k, w) =
     (let t1 = h + Sigma1 e + Ch e f g + k + w;
          t2 = Sigma0 a + Maj a b c
      in [t1 + t2, a, b, c, d + t1, e, f, g])"
| "round256 s _ = s"

definition compress :: "u32 list \<Rightarrow> u32 list \<Rightarrow> u32 list" where
  "compress hs block = map2 (+) hs (foldl round256 hs (zip K256 (schedule block)))"

fun blocks :: "u32 list \<Rightarrow> u32 list list" where
  "blocks (w0 # w1 # w2 # w3 # w4 # w5 # w6 # w7 # w8 # w9 # w10 # w11 # w12 # w13 # w14 # w15 # rest) =
     [w0, w1, w2, w3, w4, w5, w6, w7, w8, w9, w10, w11, w12, w13, w14, w15] # blocks rest"
| "blocks _ = []"

definition sha256_words :: "byte list \<Rightarrow> u32 list" where
  "sha256_words m = foldl compress H256 (blocks (be32s (pad m)))"

definition hex_digit :: "nat \<Rightarrow> char" where
  "hex_digit n = ''0123456789abcdef'' ! n"

definition hex32 :: "u32 \<Rightarrow> string" where
  "hex32 x = map (\<lambda>s. hex_digit (unat (drop_bit s x AND 15))) [28, 24, 20, 16, 12, 8, 4, 0]"

definition sha256_hexdigest :: "byte list \<Rightarrow> string" where
  "sha256_hexdigest m = concat (map hex32 (sha256_words m))"

section \<open>An example run\<close>

definition example_world :: "string world" where
  "example_world =
     \<lparr>dirs = {[], [''home''], [''home'', ''user'']}, files = Map.empty, trace = []\<rparr>"

definition example_mirror :: "string world" where
  "example_mirror =
     \<lparr>dirs = {[], [''home''], [''home'', ''user''], [''home'', ''user'', ''env''],
              [''home'', ''user'', ''env'', ''linux-64''], [''home'', ''user'', ''env'', ''noarch'']},
      files = Map.empty, trace = []\<rparr>"

definition pkg_foo :: fetch_action where
  "pkg_foo =
     \<lparr>channel = ''https://repo.example/main/linux-64'', constrains = None, depends = Some [],
      fn = ''foo-1.0-0.tar.bz2'', md5 = [],
      sha256 = Some ''e3b0c44298fc1c149afbf4c8996fb92427ae41e4649b934ca495991b7852b855'',
      name = ''foo'', subdir = ''linux-64'', timestamp = 0,
      url = ''https://repo.example/main/linux-64/foo-1.0-0.tar.bz2'', version = ''1.0''\<rparr>"

definition pkg_bar :: fetch_action where
  "pkg_bar =
     \<lparr>channel = ''https://repo.example/main/noarch'', constrains = None, depends = Some [],
      fn = ''bar-2.0-0.conda'', md5 = [],
      sha256 = Some ''e3b0c44298fc1c149afbf4c8996fb92427ae41e4649b934ca495991b7852b855'',
      name = ''bar'', subdir = ''noarch'', timestamp = 0,
      url = ''https://repo.example/main/noarch/bar-2.0-0.conda'', version = ''2.0''\<rparr>"

definition index_linux :: "string live_repodata" where
  "index_linux =
     \<lparr>packages = Some [(''foo-1.0-0.tar.bz2'', ''foo 1.0''), (''foo-0.9-0.tar.bz2'', ''foo 0.9''),
                        (''baz-3.1-0.tar.bz2'', ''baz 3.1'')],
      packages_conda = None\<rparr>"

definition index_noarch :: "string live_repodata" where
  "index_noarch =
     \<lparr>packages = Some [],
      packages_conda = Some [(''qux-0.1-0.conda'', ''qux 0.1''), (''bar-2.0-0.conda'', ''bar 2.0'')]\<rparr>"

definition example_get :: "string \<Rightarrow> byte list option" where
  "example_get u =
     (if u = ''https://repo.example/main/linux-64/repodata.json'' then Some [1]
      else if u = ''https://repo.example/main/noarch/repodata.json'' then Some [2]
      else if u = ''https://repo.example/main/linux-64/foo-1.0-0.tar.bz2'' then Some []
      else if u = ''https://repo.example/main/noarch/bar-2.0-0.conda'' then Some []
      else None)"

definition example_json :: "byte list \<Rightarrow> string live_repodata option" where
  "example_json body =
     (if body = [1] then Some index_linux else if body = [2] then Some index_noarch else None)"

text \<open>
  The descriptor of \<^verbatim>\<open>foo\<close> with its digest spelled in upper case, and the descriptor
  of \<^verbatim>\<open>bar\<close> expecting another content than the one the channel serves.
\<close>

definition pkg_foo_upper :: fetch_action where
  "pkg_foo_upper =
     pkg_foo\<lparr>sha256 := Some ''E3B0C44298FC1C149AFBF4C8996FB92427AE41E4649B934CA495991B7852B855''\<rparr>"


text \<open>The lower-case form of a string of ASCII characters (\<^verbatim>\<open>str.lower\<close>).\<close>

definition ascii_lower :: "char \<Rightarrow> char" where
  "ascii_lower c =
     (if c \<in> set ''ABCDEFGHIJKLMNOPQRSTUVWXYZ''
      then (case c of Char b0 b1 b2 b3 b4 b5 b6 b7 \<Rightarrow> Char b0 b1 b2 b3 b4 True b6 b7)
      else c)"

definition lowercase :: "string \<Rightarrow> string" where
  "lowercase s = map ascii_lower s"

text \<open>
  What the solver returns in the example: the two packages and a virtual package from the
  channel that was added for the solver.
\<close>

definition pkg_virtual :: fetch_action where
  "pkg_virtual =
     \<lparr>channel = ''file:///tmp/virtual/linux-64'', constrains = None, depends = None,
      fn = ''__glibc-2.17-0.tar.bz2'', md5 = [], sha256 = None,
      name = ''__glibc'', subdir = ''linux-64'', timestamp = 0,
      url = ''file:///tmp/virtual/linux-64/__glibc-2.17-0.tar.bz2'', version = ''2.17''\<rparr>"

definition example_solution :: "unit solution" where
  "example_solution =
     \<lparr>success = True, FETCH = [pkg_virtual, pkg_foo, pkg_bar],
      LINK = [\<lparr>base_url = ''file:///tmp/virtual''\<rparr>, \<lparr>base_url = ''https://repo.example/main''\<rparr>]\<rparr>"

text \<open>
  What conda-lock does in the example: the environment asks for three packages from one
  channel, the virtual packages are those of \<^verbatim>\<open>linux-64\<close> alone, the solver
  returns the solution above whatever it is asked, and the fetch actions need no
  reconstruction.  In the first variant conda-lock writes no files; in the second the
  repository of virtual packages is stored under \<^verbatim>\<open>/tmp\<close>.
\<close>

definition example_lock_spec :: lock_specification where
  "example_lock_spec =
     \<lparr>dependencies = [\<lparr>dep_name = ''foo'', dep_version = ''1.0''\<rparr>,
                       \<lparr>dep_name = ''bar'', dep_version = ''>=2''\<rparr>,
                       \<lparr>dep_name = ''pip'', dep_version = []\<rparr>],
      spec_channels = [''https://repo.example/main'']\<rparr>"

definition example_virtual_packages :: fake_repo_data where
  "example_virtual_packages =
     \<lparr>all_repodata = [''linux-64'' \<mapsto>
         [(''__glibc-2.17-0.tar.bz2'', \<lparr>vp_name = ''__glibc'', vp_version = ''2.17''\<rparr>)]],
      channel_url = ''file:///tmp/virtual''\<rparr>"

definition example_conda_lock :: "(string, unit) conda_lock" where
  "example_conda_lock =
     \<lparr>parse_environment_file = Some example_lock_spec,
      virtual_package_repo = Some example_virtual_packages,
      virtual_package_files = (\<lambda>fs. fs),
      solve_specs_for_arch = (\<lambda>solver channels specs platform. Some example_solution),
      solver_files = (\<lambda>fs. fs),
      reconstruct_fetch_actions = (\<lambda>solver platform solution. Some solution),
      reconstruct_files = (\<lambda>fs. fs)\<rparr>"

definition example_conda_lock_tmp :: "(string, unit) conda_lock" where
  "example_conda_lock_tmp =
     example_conda_lock\<lparr>virtual_package_files :=
       (\<lambda>(d, f). (insert [''tmp'', ''vpr''] (insert [''tmp''] d),
                   f([''tmp'', ''vpr'', ''repodata.json''] \<mapsto> Artifact [123, 125])))\<rparr>"

text \<open>
  The states of the example run: after the directories are made, after the indexes are
  written, and at the end.
\<close>

definition example_after_mkdir :: "string world" where
  "example_after_mkdir = \<lparr>dirs = {[''home'', ''user'', ''env'', ''noarch''], [''home'', ''user'', ''env'', ''linux-64''],
               [''home'', ''user'', ''env''], [], [''home''], [''home'', ''user'']},
       files = Map.empty,
       trace = [Mkdir [''home'', ''user'', ''env''],
                Mkdir [''home'', ''user'', ''env'', ''linux-64''],
                Mkdir [''home'', ''user'', ''env'', ''noarch'']]\<rparr>"

definition example_after_index :: "string world" where
  "example_after_index = \<lparr>dirs = {[''home'', ''user'', ''env'', ''noarch''], [''home'', ''user'', ''env'', ''linux-64''],
               [''home'', ''user'', ''env''], [], [''home''], [''home'', ''user'']},
       files = [[''home'', ''user'', ''env'', ''linux-64'', ''repodata.json'']
                  \<mapsto> Repodata_json \<lparr>info_subdir = ''linux-64'',
                       rd_packages = [(''foo-1.0-0.tar.bz2'', ''foo 1.0'')],
                       rd_packages_conda = []\<rparr>,
                [''home'', ''user'', ''env'', ''noarch'', ''repodata.json'']
                  \<mapsto> Repodata_json \<lparr>info_subdir = ''noarch'', rd_packages = [],
                       rd_packages_conda = [(''bar-2.0-0.conda'', ''bar 2.0'')]\<rparr>],
       trace = [Mkdir [''home'', ''user'', ''env''],
                Mkdir [''home'', ''user'', ''env'', ''linux-64''],
                Mkdir [''home'', ''user'', ''env'', ''noarch''],
                Solve,
                Download ''https://repo.example/main/linux-64/repodata.json'',
                Write [''home'', ''user'', ''env'', ''linux-64'', ''repodata.json''],
                Download ''https://repo.example/main/noarch/repodata.json'',
                Write [''home'', ''user'', ''env'', ''noarch'', ''repodata.json'']]\<rparr>"

definition example_vendored :: "string world" where
  "example_vendored = \<lparr>dirs = {[''home'', ''user'', ''env'', ''noarch''], [''home'', ''user'', ''env'', ''linux-64''],
               [''home'', ''user'', ''env''], [], [''home''], [''home'', ''user'']},
       files = [[''home'', ''user'', ''env'', ''linux-64'', ''repodata.json'']
                  \<mapsto> Repodata_json \<lparr>info_subdir = ''linux-64'',
                       rd_packages = [(''foo-1.0-0.tar.bz2'', ''foo 1.0'')],
                       rd_packages_conda = []\<rparr>,
                [''home'', ''user'', ''env'', ''noarch'', ''repodata.json'']
                  \<mapsto> Repodata_json \<lparr>info_subdir = ''noarch'', rd_packages = [],
                       rd_packages_conda = [(''bar-2.0-0.conda'', ''bar 2.0'')]\<rparr>,
                [''home'', ''user'', ''env'', ''linux-64'', ''foo-1.0-0.tar.bz2''] \<mapsto> Artifact [],
                [''home'', ''user'', ''env'', ''noarch'', ''bar-2.0-0.conda''] \<mapsto> Artifact []],
       trace = [Mkdir [''home'', ''user'', ''env''],
                Mkdir [''home'', ''user'', ''env'', ''linux-64''],
                Mkdir [''home'', ''user'', ''env'', ''noarch''],
                Solve,
                Download ''https://repo.example/main/linux-64/repodata.json'',
                Write [''home'', ''user'', ''env'', ''linux-64'', ''repodata.json''],
                Download ''https://repo.example/main/noarch/repodata.json'',
                Write [''home'', ''user'', ''env'', ''noarch'', ''repodata.json''],
                Download ''https://repo.example/main/linux-64/foo-1.0-0.tar.bz2'',
                Write [''home'', ''user'', ''env'', ''linux-64'', ''foo-1.0-0.tar.bz2''],
                Download ''https://repo.example/main/noarch/bar-2.0-0.conda'',
                Write [''home'', ''user'', ''env'', ''noarch'', ''bar-2.0-0.conda'']]\<rparr>"

section \<open>Properties\<close>

subsection \<open>The retained entries\<close>

lemma joinpath_repodata: "joinpath d ''repodata.json'' = d @ [''repodata.json'']"
  by (simp add: joinpath_def is_absolute_def parts_def)

lemma retain_keys:
  "fst ` set (retain V items out) = fst ` set out \<union> (fst ` set items \<inter> set V)"
proof (induction items arbitrary: out)
  case Nil
  then show ?case by simp
next
  case (Cons it items)
  obtain k v where it: "it = (k, v)" by (cases it)
  have upd: "fst ` set (AList.update k v out) = insert k (fst ` set out)"
    using dom_update [of k v out] by (simp add: insert_absorb)
  show ?case
    using Cons.IH [of "AList.update k v out"] Cons.IH [of out]
    by (auto simp: it upd)
qed

lemma retain_map_of:
  "map_of (retain V items out) = map_of out ++ (map_of (rev items) |` set V)"
proof (induction items arbitrary: out)
  case Nil
  then show ?case by simp
next
  case (Cons it items)
  obtain k v where it: "it = (k, v)" by (cases it)
  show ?case
  proof (cases "k \<in> set V")
    case True
    have "map_of (retain V (it # items) out) = (map_of out)(k \<mapsto> v) ++ (map_of (rev items) |` set V)"
      using True Cons.IH [of "AList.update k v out"]
      by (simp add: it fun_eq_iff map_add_def update_conv split: option.splits)
    also have "\<dots> = map_of out ++ (map_of (rev (it # items)) |` set V)"
      using True by (auto simp: it map_add_def restrict_map_def fun_eq_iff split: option.splits)
    finally show ?thesis .
  next
    case False
    then show ?thesis
      using Cons.IH [of out]
      by (auto simp: it map_add_def restrict_map_def fun_eq_iff split: option.splits)
  qed
qed

lemma retain_distinct:
  "distinct (map fst out) \<Longrightarrow> distinct (map fst (retain V items out))"
  by (induction items arbitrary: out) (auto simp: distinct_update)

lemma retain_subset:
  "set (retain V items out) \<subseteq> set out \<union> {e \<in> set items. fst e \<in> set V}"
proof (induction items arbitrary: out)
  case Nil
  then show ?case by simp
next
  case (Cons it items)
  obtain k v where it: "it = (k, v)" by (cases it)
  have "set (AList.update k v out) \<subseteq> insert (k, v) (set out)"
    by (induction out) auto
  then show ?case
    using Cons.IH [of "AList.update k v out"] Cons.IH [of out]
    by (auto simp: it)
qed

lemma retain_append:
  "distinct (map fst xs) \<Longrightarrow> fst ` set xs \<subseteq> set V \<Longrightarrow> fst ` set acc \<inter> fst ` set xs = {}
     \<Longrightarrow> retain V xs acc = acc @ xs"
proof (induction xs arbitrary: acc)
  case Nil
  then show ?case by simp
next
  case (Cons it xs)
  obtain k v where it: "it = (k, v)" by (cases it)
  have notin: "k \<notin> fst ` set acc" using Cons.prems(3) by (auto simp: it)
  have upd: "AList.update k v acc = acc @ [(k, v)]"
    using notin by (induction acc) auto
  have "retain V xs (acc @ [(k, v)]) = (acc @ [(k, v)]) @ xs"
    using Cons.prems by (intro Cons.IH) (auto simp: it)
  then show ?case
    using Cons.prems(2) by (simp add: it upd)
qed

subsection \<open>Writing files\<close>

lemma write_file_ok:
  "p \<notin> dirs w \<Longrightarrow> files w (butlast p) = None \<Longrightarrow> butlast p \<in> dirs w
     \<Longrightarrow> write_file p c w = (None, record_event (Write p) (w\<lparr>files := (files w)(p \<mapsto> c)\<rparr>))"
  by (simp add: write_file_def)

lemma write_file_cases:
  "write_file p c w = (r, w') \<Longrightarrow>
     (r \<noteq> None \<and> w' = w) \<or> (r = None \<and> w' = record_event (Write p) (w\<lparr>files := (files w)(p \<mapsto> c)\<rparr>))"
  by (auto simp: write_file_def split: if_splits)

lemma reconstruct_repodata_json_written:
  assumes "http_get u = Some body" and "json_of body = Some U"
    and "reconstruct_repodata_json http_get json_of u dest_dir D w = (None, w')"
  shows "w' = record_event (Write (dest_dir @ [''repodata.json'']))
               ((record_event (Download u) w)
                  \<lparr>files := (files w)(dest_dir @ [''repodata.json''] \<mapsto>
                      Repodata_json (reconstruct_repodata dest_dir D U))\<rparr>)"
  using assms write_file_cases [of "dest_dir @ [''repodata.json'']"
      "Repodata_json (reconstruct_repodata dest_dir D U)" "record_event (Download u) w" None w']
  by (simp add: reconstruct_repodata_json_def joinpath_repodata record_event_def)

subsection \<open>The digest of the empty byte string\<close>

lemma sha256_hexdigest_empty:
  "sha256_hexdigest [] = ''e3b0c44298fc1c149afbf4c8996fb92427ae41e4649b934ca495991b7852b855''"
  by code_simp

lemma remove_channel_fetch_filter:
  "remove_channel_fetch ch es acc = acc @ filter (\<lambda>e. \<not> prefix ch (channel e)) es"
  by (induction es arbitrary: acc) simp_all

lemma FETCH_remove_channel:
  "FETCH (remove_channel sol ch) = filter (\<lambda>e. \<not> prefix ch (channel e)) (FETCH sol)"
  by (simp add: remove_channel_def remove_channel_fetch_filter)

text \<open>
  Claim C4.  For every descriptor list and every synthetic channel URL, the FETCH list
  that \<^verbatim>\<open>_remove_channel\<close> returns holds no descriptor whose channel starts with
  that URL, its length is the length of the input minus the number of descriptors whose
  channel starts with the URL, and it is the input with exactly those descriptors
  deleted, the others kept in their order.
\<close>

theorem remove_channel_strips_synthetic:
  "list_all (\<lambda>e. \<not> prefix C (channel e)) (FETCH (remove_channel sol C))
   \<and> length (FETCH (remove_channel sol C))
       = length (FETCH sol) - length (filter (\<lambda>e. prefix C (channel e)) (FETCH sol))
   \<and> FETCH (remove_channel sol C) = filter (\<lambda>e. \<not> prefix C (channel e)) (FETCH sol)
   \<and> subseq (FETCH (remove_channel sol C)) (FETCH sol)"
proof -
  let ?D = "FETCH sol"
  let ?keep = "\<lambda>e. \<not> prefix C (channel e)"
  have eq: "FETCH (remove_channel sol C) = filter ?keep ?D"
    by (rule FETCH_remove_channel)
  have len: "length (filter ?keep ?D) = length ?D - length (filter (\<lambda>e. prefix C (channel e)) ?D)"
    using sum_length_filter_compl [of "\<lambda>e. prefix C (channel e)" ?D] by simp
  have "list_all ?keep (filter ?keep ?D)"
    by (simp add: list_all_iff)
  with eq len show ?thesis by simp
qed

subsection \<open>The reconstructed index\<close>

lemma reconstruct_repodata_fields:
  "info_subdir (reconstruct_repodata dest_dir D U) = path_name dest_dir"
  "rd_packages (reconstruct_repodata dest_dir D U)
     = retain (map fn D) (get_partition (packages U)) []"
  "rd_packages_conda (reconstruct_repodata dest_dir D U)
     = retain (map fn D) (get_partition (packages_conda U)) []"
  by (simp_all add: reconstruct_repodata_def Let_def)

text \<open>
  Claim C3.  For every upstream index document \<open>U\<close> and descriptor list \<open>D\<close>, the
  reconstructed document has the subdirectory name of the destination under
  \<^verbatim>\<open>info\<close> and the two partitions; the file names of its two partitions together are
  exactly the file names of \<open>D\<close> that are keys of one of the partitions of \<open>U\<close>;
  every entry of the output is an entry of the same partition of \<open>U\<close> whose file name
  is referenced by \<open>D\<close>; and this document is what a reconstruction that completes
  has written to \<^verbatim>\<open>repodata.json\<close> in the destination directory.
\<close>

theorem reconstructed_index_shape_and_keys:
  "info_subdir (reconstruct_repodata dest_dir D U) = path_name dest_dir
   \<and> fst ` set (rd_packages (reconstruct_repodata dest_dir D U))
       \<union> fst ` set (rd_packages_conda (reconstruct_repodata dest_dir D U))
     = fn ` set D \<inter> (fst ` set (get_partition (packages U))
                        \<union> fst ` set (get_partition (packages_conda U)))
   \<and> set (rd_packages (reconstruct_repodata dest_dir D U))
       \<subseteq> {e \<in> set (get_partition (packages U)). fst e \<in> fn ` set D}
   \<and> set (rd_packages_conda (reconstruct_repodata dest_dir D U))
       \<subseteq> {e \<in> set (get_partition (packages_conda U)). fst e \<in> fn ` set D}
   \<and> (http_get u = Some body \<and> json_of body = Some U
        \<and> fst (reconstruct_repodata_json http_get json_of u dest_dir D w) = None
      \<longrightarrow> files (snd (reconstruct_repodata_json http_get json_of u dest_dir D w))
            (joinpath dest_dir ''repodata.json'')
          = Some (Repodata_json (reconstruct_repodata dest_dir D U)))"
proof -
  let ?R = "reconstruct_repodata dest_dir D U"
  have info: "info_subdir ?R = path_name dest_dir"
    by (simp add: reconstruct_repodata_fields)
  have keys: "fst ` set (rd_packages ?R) \<union> fst ` set (rd_packages_conda ?R)
      = fn ` set D \<inter> (fst ` set (get_partition (packages U))
                        \<union> fst ` set (get_partition (packages_conda U)))"
    by (auto simp: reconstruct_repodata_fields retain_keys)
  have sub1: "set (rd_packages ?R) \<subseteq> {e \<in> set (get_partition (packages U)). fst e \<in> fn ` set D}"
    using retain_subset [of "map fn D" "get_partition (packages U)" "[]"]
    by (auto simp: reconstruct_repodata_fields)
  have sub2: "set (rd_packages_conda ?R)
      \<subseteq> {e \<in> set (get_partition (packages_conda U)). fst e \<in> fn ` set D}"
    using retain_subset [of "map fn D" "get_partition (packages_conda U)" "[]"]
    by (auto simp: reconstruct_repodata_fields)
  have written: "files (snd (reconstruct_repodata_json http_get json_of u dest_dir D w))
            (joinpath dest_dir ''repodata.json'') = Some (Repodata_json ?R)"
    if h: "http_get u = Some body" "json_of body = Some U"
      "fst (reconstruct_repodata_json http_get json_of u dest_dir D w) = None"
  proof -
    obtain w' where run: "reconstruct_repodata_json http_get json_of u dest_dir D w = (None, w')"
      using h(3) by (cases "reconstruct_repodata_json http_get json_of u dest_dir D w") auto
    show ?thesis
      using reconstruct_repodata_json_written [OF h(1) h(2) run]
      by (simp add: run joinpath_repodata record_event_def)
  qed
  from info keys sub1 sub2 written show ?thesis by blast
qed

text \<open>
  The example: the index of \<^verbatim>\<open>linux-64\<close> holds three entries, the descriptors
  reference one of them.
\<close>

theorem reconstructed_index_shape_and_keys_example:
  "example_get ''https://repo.example/main/linux-64/repodata.json'' = Some [1]
   \<and> example_json [1] = Some index_linux
   \<and> fst (reconstruct_repodata_json example_get example_json
            ''https://repo.example/main/linux-64/repodata.json''
            [''home'', ''user'', ''env'', ''linux-64''] [pkg_foo, pkg_bar] example_mirror) = None
   \<and> files (snd (reconstruct_repodata_json example_get example_json
            ''https://repo.example/main/linux-64/repodata.json''
            [''home'', ''user'', ''env'', ''linux-64''] [pkg_foo, pkg_bar] example_mirror))
        [''home'', ''user'', ''env'', ''linux-64'', ''repodata.json'']
     = Some (Repodata_json \<lparr>info_subdir = ''linux-64'',
               rd_packages = [(''foo-1.0-0.tar.bz2'', ''foo 1.0'')], rd_packages_conda = []\<rparr>)"
proof -
  have g: "example_get ''https://repo.example/main/linux-64/repodata.json'' = Some [1]"
    by (simp add: example_get_def)
  have j: "example_json [1] = Some index_linux"
    by (simp add: example_json_def)
  have run: "fst (reconstruct_repodata_json example_get example_json
            ''https://repo.example/main/linux-64/repodata.json''
            [''home'', ''user'', ''env'', ''linux-64''] [pkg_foo, pkg_bar] example_mirror) = None"
    by (simp add: reconstruct_repodata_json_def g j write_file_def joinpath_repodata
        record_event_def example_mirror_def)
  have doc: "reconstruct_repodata [''home'', ''user'', ''env'', ''linux-64''] [pkg_foo, pkg_bar] index_linux
      = \<lparr>info_subdir = ''linux-64'',
         rd_packages = [(''foo-1.0-0.tar.bz2'', ''foo 1.0'')], rd_packages_conda = []\<rparr>"
    by (simp add: reconstruct_repodata_def Let_def path_name_def index_linux_def
        get_partition_def pkg_foo_def pkg_bar_def)
  show ?thesis
    using reconstructed_index_shape_and_keys [of "[''home'', ''user'', ''env'', ''linux-64'']"
        "[pkg_foo, pkg_bar]" index_linux example_get
        "''https://repo.example/main/linux-64/repodata.json''" "[1]" example_json example_mirror]
      g j run
    by (simp add: doc joinpath_repodata)
qed

lemma reconstruct_repodata_json_cases:
  assumes "reconstruct_repodata_json http_get json_of u dest_dir D w = (None, w')"
  shows "\<exists>body U. http_get u = Some body \<and> json_of body = Some U
     \<and> w' = record_event (Write (dest_dir @ [''repodata.json'']))
               ((record_event (Download u) w)
                  \<lparr>files := (files w)(dest_dir @ [''repodata.json''] \<mapsto>
                      Repodata_json (reconstruct_repodata dest_dir D U))\<rparr>)"
proof (cases "http_get u")
  case None
  with assms show ?thesis by (simp add: reconstruct_repodata_json_def)
next
  case (Some body)
  show ?thesis
  proof (cases "json_of body")
    case None
    with assms Some show ?thesis by (simp add: reconstruct_repodata_json_def)
  next
    case (Some U)
    with \<open>http_get u = Some body\<close> reconstruct_repodata_json_written [OF _ _ assms]
    show ?thesis by blast
  qed
qed

lemma reconstruct_repodata_json_ok:
  assumes "http_get u = Some body" and "json_of body = Some U"
    and "dest_dir \<in> dirs w" and "files w dest_dir = None"
    and "dest_dir @ [''repodata.json''] \<notin> dirs w"
  shows "reconstruct_repodata_json http_get json_of u dest_dir D w
     = (None, record_event (Write (dest_dir @ [''repodata.json'']))
               ((record_event (Download u) w)
                  \<lparr>files := (files w)(dest_dir @ [''repodata.json''] \<mapsto>
                      Repodata_json (reconstruct_repodata dest_dir D U))\<rparr>))"
  using assms
  by (simp add: reconstruct_repodata_json_def joinpath_repodata write_file_def record_event_def)

text \<open>
  Claim C7.  An upstream index document that lacks one of the partitions is treated as
  if the partition were empty: the document reconstructed from it is the one
  reconstructed from the same document with the empty partition in its place, and no
  entry is retained for it.  The reconstruction of a document that lacks a partition
  completes without an error whenever the document can be fetched and the destination
  directory exists, and writes the reconstructed document.
\<close>

theorem missing_partition_is_empty:
  "reconstruct_repodata dest_dir D (U\<lparr>packages := None\<rparr>)
     = reconstruct_repodata dest_dir D (U\<lparr>packages := Some []\<rparr>)
   \<and> rd_packages (reconstruct_repodata dest_dir D (U\<lparr>packages := None\<rparr>)) = []
   \<and> reconstruct_repodata dest_dir D (U\<lparr>packages_conda := None\<rparr>)
     = reconstruct_repodata dest_dir D (U\<lparr>packages_conda := Some []\<rparr>)
   \<and> rd_packages_conda (reconstruct_repodata dest_dir D (U\<lparr>packages_conda := None\<rparr>)) = []
   \<and> (http_get u = Some body \<and> json_of body = Some U
        \<and> (packages U = None \<or> packages_conda U = None)
        \<and> dest_dir \<in> dirs w \<and> files w dest_dir = None
        \<and> joinpath dest_dir ''repodata.json'' \<notin> dirs w
      \<longrightarrow> fst (reconstruct_repodata_json http_get json_of u dest_dir D w) = None
          \<and> files (snd (reconstruct_repodata_json http_get json_of u dest_dir D w))
               (joinpath dest_dir ''repodata.json'')
             = Some (Repodata_json (reconstruct_repodata dest_dir D U)))"
proof -
  have completes: "fst (reconstruct_repodata_json http_get json_of u dest_dir D w) = None
          \<and> files (snd (reconstruct_repodata_json http_get json_of u dest_dir D w))
               (joinpath dest_dir ''repodata.json'')
             = Some (Repodata_json (reconstruct_repodata dest_dir D U))"
    if h: "http_get u = Some body" "json_of body = Some U" "dest_dir \<in> dirs w"
      "files w dest_dir = None" "joinpath dest_dir ''repodata.json'' \<notin> dirs w"
    using reconstruct_repodata_json_ok [of http_get u body json_of U dest_dir w D] h
    by (simp add: joinpath_repodata record_event_def)
  have "reconstruct_repodata dest_dir D (U\<lparr>packages := None\<rparr>)
     = reconstruct_repodata dest_dir D (U\<lparr>packages := Some []\<rparr>)"
    by (simp add: reconstruct_repodata_def get_partition_def)
  moreover have "rd_packages (reconstruct_repodata dest_dir D (U\<lparr>packages := None\<rparr>)) = []"
    by (simp add: reconstruct_repodata_fields get_partition_def)
  moreover have "reconstruct_repodata dest_dir D (U\<lparr>packages_conda := None\<rparr>)
     = reconstruct_repodata dest_dir D (U\<lparr>packages_conda := Some []\<rparr>)"
    by (simp add: reconstruct_repodata_def get_partition_def)
  moreover have "rd_packages_conda (reconstruct_repodata dest_dir D (U\<lparr>packages_conda := None\<rparr>)) = []"
    by (simp add: reconstruct_repodata_fields get_partition_def)
  ultimately show ?thesis using completes by blast
qed

text \<open>
  The example: the index of \<^verbatim>\<open>linux-64\<close> has no \<^verbatim>\<open>packages.conda\<close> partition.
\<close>

theorem missing_partition_is_empty_example:
  "example_get ''https://repo.example/main/linux-64/repodata.json'' = Some [1]
   \<and> example_json [1] = Some index_linux
   \<and> packages_conda index_linux = None
   \<and> [''home'', ''user'', ''env'', ''linux-64''] \<in> dirs example_mirror
   \<and> files example_mirror [''home'', ''user'', ''env'', ''linux-64''] = None
   \<and> joinpath [''home'', ''user'', ''env'', ''linux-64''] ''repodata.json'' \<notin> dirs example_mirror
   \<and> fst (reconstruct_repodata_json example_get example_json
            ''https://repo.example/main/linux-64/repodata.json''
            [''home'', ''user'', ''env'', ''linux-64''] [pkg_foo, pkg_bar] example_mirror) = None
   \<and> rd_packages_conda (reconstruct_repodata [''home'', ''user'', ''env'', ''linux-64'']
         [pkg_foo, pkg_bar] index_linux) = []"
proof -
  have g: "example_get ''https://repo.example/main/linux-64/repodata.json'' = Some [1]"
    by (simp add: example_get_def)
  have j: "example_json [1] = Some index_linux"
    by (simp add: example_json_def)
  have m: "packages_conda index_linux = None"
    by (simp add: index_linux_def)
  have d: "[''home'', ''user'', ''env'', ''linux-64''] \<in> dirs example_mirror"
    "files example_mirror [''home'', ''user'', ''env'', ''linux-64''] = None"
    "joinpath [''home'', ''user'', ''env'', ''linux-64''] ''repodata.json'' \<notin> dirs example_mirror"
    by (simp_all add: example_mirror_def joinpath_repodata)
  have u: "index_linux\<lparr>packages_conda := None\<rparr> = index_linux"
    by (simp add: index_linux_def)
  note inst = missing_partition_is_empty [of "[''home'', ''user'', ''env'', ''linux-64'']"
        "[pkg_foo, pkg_bar]" index_linux example_get
        "''https://repo.example/main/linux-64/repodata.json''" "[1]" example_json example_mirror]
  from inst have e: "rd_packages_conda (reconstruct_repodata [''home'', ''user'', ''env'', ''linux-64'']
         [pkg_foo, pkg_bar] (index_linux\<lparr>packages_conda := None\<rparr>)) = []"
    by blast
  from inst g j m d have run: "fst (reconstruct_repodata_json example_get example_json
            ''https://repo.example/main/linux-64/repodata.json''
            [''home'', ''user'', ''env'', ''linux-64''] [pkg_foo, pkg_bar] example_mirror) = None"
    by blast
  from e have e': "rd_packages_conda (reconstruct_repodata [''home'', ''user'', ''env'', ''linux-64'']
         [pkg_foo, pkg_bar] index_linux) = []"
    by (simp only: u)
  from g j m d run e' show ?thesis by blast
qed

text \<open>
  Claim C8.  Reconstruction is deterministic and idempotent.  For a fixed upstream
  document and descriptor list, a reconstruction that has completed can be run again
  on the resulting state: it completes again and leaves every file as it was, so the
  second document is the first; and any other completed run, from whatever state,
  writes the same document.  The document is also a fixed point: reconstructing from
  the reconstructed partitions gives the same document.
\<close>

theorem reconstruction_idempotent:
  "(http_get u = Some body \<and> json_of body = Some U
      \<and> reconstruct_repodata_json http_get json_of u dest_dir D w = (None, w1)
    \<longrightarrow> (\<exists>w2. reconstruct_repodata_json http_get json_of u dest_dir D w1 = (None, w2)
            \<and> files w2 = files w1 \<and> dirs w2 = dirs w1)
        \<and> (\<forall>v v1. reconstruct_repodata_json http_get json_of u dest_dir D v = (None, v1)
              \<longrightarrow> files v1 (joinpath dest_dir ''repodata.json'')
                  = files w1 (joinpath dest_dir ''repodata.json'')))
   \<and> reconstruct_repodata dest_dir D
        \<lparr>packages = Some (rd_packages (reconstruct_repodata dest_dir D U)),
         packages_conda = Some (rd_packages_conda (reconstruct_repodata dest_dir D U))\<rparr>
     = reconstruct_repodata dest_dir D U"
proof -
  let ?p = "dest_dir @ [''repodata.json'']"
  let ?doc = "Repodata_json (reconstruct_repodata dest_dir D U)"
  have twice: "(\<exists>w2. reconstruct_repodata_json http_get json_of u dest_dir D w1 = (None, w2)
            \<and> files w2 = files w1 \<and> dirs w2 = dirs w1)
        \<and> (\<forall>v v1. reconstruct_repodata_json http_get json_of u dest_dir D v = (None, v1)
              \<longrightarrow> files v1 (joinpath dest_dir ''repodata.json'')
                  = files w1 (joinpath dest_dir ''repodata.json''))"
    if h: "http_get u = Some body" "json_of body = Some U"
      "reconstruct_repodata_json http_get json_of u dest_dir D w = (None, w1)"
  proof -
    have w1: "w1 = record_event (Write ?p)
               ((record_event (Download u) w)\<lparr>files := (files w)(?p \<mapsto> ?doc)\<rparr>)"
      by (rule reconstruct_repodata_json_written [OF h])
    have ok: "?p \<notin> dirs w \<and> files w dest_dir = None \<and> dest_dir \<in> dirs w"
      using h by (auto simp: reconstruct_repodata_json_def Let_def joinpath_repodata
          write_file_def record_event_def split: if_splits)
    have files1: "files w1 = (files w)(?p \<mapsto> ?doc)" and dirs1: "dirs w1 = dirs w"
      by (simp_all add: w1 record_event_def)
    have again: "reconstruct_repodata_json http_get json_of u dest_dir D w1
      = (None, record_event (Write ?p)
               ((record_event (Download u) w1)\<lparr>files := (files w1)(?p \<mapsto> ?doc)\<rparr>))"
      using ok h(1) h(2) reconstruct_repodata_json_ok [of http_get u body json_of U dest_dir w1 D]
      by (simp add: files1 dirs1)
    have same: "(files w1)(?p \<mapsto> ?doc) = files w1"
      by (simp add: files1)
    have first: "\<exists>w2. reconstruct_repodata_json http_get json_of u dest_dir D w1 = (None, w2)
            \<and> files w2 = files w1 \<and> dirs w2 = dirs w1"
      using again same by (simp add: record_event_def)
    have other: "files v1 (joinpath dest_dir ''repodata.json'')
                  = files w1 (joinpath dest_dir ''repodata.json'')"
      if v: "reconstruct_repodata_json http_get json_of u dest_dir D v = (None, v1)" for v v1
      using reconstruct_repodata_json_written [OF h(1) h(2) v]
      by (simp add: files1 joinpath_repodata record_event_def)
    from first other show ?thesis by blast
  qed
  let ?V = "map fn D"
  have refix: "retain ?V (retain ?V items []) [] = retain ?V items []" for items :: "(string \<times> 'a) list"
  proof -
    have "distinct (map fst (retain ?V items []))"
      by (rule retain_distinct) simp
    moreover have "fst ` set (retain ?V items []) \<subseteq> set ?V"
      by (simp add: retain_keys)
    ultimately show ?thesis
      using retain_append [of "retain ?V items []" ?V "[]"] by simp
  qed
  have fixed: "reconstruct_repodata dest_dir D
        \<lparr>packages = Some (rd_packages (reconstruct_repodata dest_dir D U)),
         packages_conda = Some (rd_packages_conda (reconstruct_repodata dest_dir D U))\<rparr>
     = reconstruct_repodata dest_dir D U"
    by (simp add: reconstruct_repodata_def Let_def get_partition_def refix)
  from twice fixed show ?thesis by blast
qed

text \<open>
  The example: the index of \<^verbatim>\<open>linux-64\<close> is reconstructed twice in a row.
\<close>

theorem reconstruction_idempotent_example:
  "example_get ''https://repo.example/main/linux-64/repodata.json'' = Some [1]
   \<and> example_json [1] = Some index_linux
   \<and> fst (reconstruct_repodata_json example_get example_json
       ''https://repo.example/main/linux-64/repodata.json''
       [''home'', ''user'', ''env'', ''linux-64''] [pkg_foo, pkg_bar] example_mirror) = None
   \<and> fst (reconstruct_repodata_json example_get example_json
       ''https://repo.example/main/linux-64/repodata.json''
       [''home'', ''user'', ''env'', ''linux-64''] [pkg_foo, pkg_bar]
       (snd (reconstruct_repodata_json example_get example_json
          ''https://repo.example/main/linux-64/repodata.json''
          [''home'', ''user'', ''env'', ''linux-64''] [pkg_foo, pkg_bar] example_mirror))) = None
   \<and> files (snd (reconstruct_repodata_json example_get example_json
       ''https://repo.example/main/linux-64/repodata.json''
       [''home'', ''user'', ''env'', ''linux-64''] [pkg_foo, pkg_bar]
       (snd (reconstruct_repodata_json example_get example_json
          ''https://repo.example/main/linux-64/repodata.json''
          [''home'', ''user'', ''env'', ''linux-64''] [pkg_foo, pkg_bar] example_mirror))))
     = files (snd (reconstruct_repodata_json example_get example_json
          ''https://repo.example/main/linux-64/repodata.json''
          [''home'', ''user'', ''env'', ''linux-64''] [pkg_foo, pkg_bar] example_mirror))"
proof -
  let ?run = "reconstruct_repodata_json example_get example_json
       ''https://repo.example/main/linux-64/repodata.json''
       [''home'', ''user'', ''env'', ''linux-64''] [pkg_foo, pkg_bar]"
  have g: "example_get ''https://repo.example/main/linux-64/repodata.json'' = Some [1]"
    by (simp add: example_get_def)
  have j: "example_json [1] = Some index_linux"
    by (simp add: example_json_def)
  have ok: "fst (?run example_mirror) = None"
    by (simp add: reconstruct_repodata_json_def g j write_file_def joinpath_repodata
        record_event_def example_mirror_def)
  then have run: "?run example_mirror = (None, snd (?run example_mirror))"
    by (metis prod.collapse)
  from reconstruction_idempotent [of example_get
      "''https://repo.example/main/linux-64/repodata.json''" "[1]" example_json index_linux
      "[''home'', ''user'', ''env'', ''linux-64'']" "[pkg_foo, pkg_bar]" example_mirror
      "snd (?run example_mirror)"] g j run
  obtain w2 where "?run (snd (?run example_mirror)) = (None, w2)"
    and "files w2 = files (snd (?run example_mirror))"
    by blast
  with g j ok show ?thesis by simp
qed

subsection \<open>The driver of the reconstruction\<close>

lemma repodata_jobs_set:
  "set (repodata_jobs channels subdirs)
     = {(S, C). S \<in> set subdirs \<and> C \<in> set channels \<and> sublist S C}"
  by (auto simp: repodata_jobs_def)

lemma repodata_jobs_distinct:
  "distinct channels \<Longrightarrow> distinct subdirs \<Longrightarrow> distinct (repodata_jobs channels subdirs)"
proof (induction subdirs)
  case Nil
  then show ?case by (simp add: repodata_jobs_def)
next
  case (Cons sd subdirs)
  have split: "repodata_jobs channels (sd # subdirs)
      = map (\<lambda>ch. (sd, ch)) (filter (\<lambda>ch. sublist sd ch) channels) @ repodata_jobs channels subdirs"
    by (simp add: repodata_jobs_def)
  have here: "distinct (map (\<lambda>ch. (sd, ch)) (filter (\<lambda>ch. sublist sd ch) channels))"
    using Cons.prems(1) by (simp add: distinct_map inj_on_def)
  have apart: "set (map (\<lambda>ch. (sd, ch)) (filter (\<lambda>ch. sublist sd ch) channels))
      \<inter> set (repodata_jobs channels subdirs) = {}"
    using Cons.prems(2) by (auto simp: repodata_jobs_set)
  from Cons here apart show ?case by (simp add: split)
qed

lemma reconstruct_repodata_json_trace:
  assumes "reconstruct_repodata_json http_get json_of u dest_dir D w = (None, w')"
  shows "trace w' = trace w @ [Download u, Write (joinpath dest_dir ''repodata.json'')]"
  using reconstruct_repodata_json_cases [OF assms]
  by (auto simp: record_event_def joinpath_repodata)

lemma reconstruct_all_trace:
  "reconstruct_all http_get json_of D root jobs w = (None, w') \<Longrightarrow>
     trace w' = trace w @ concat (map (\<lambda>(S, C). [Download (C @ ''/repodata.json''),
                    Write (joinpath (joinpath root S) ''repodata.json'')]) jobs)"
proof (induction jobs arbitrary: w)
  case Nil
  then show ?case by simp
next
  case (Cons job jobs)
  obtain S C where job: "job = (S, C)" by (cases job)
  obtain r w1 where step: "reconstruct_repodata_json http_get json_of (C @ ''/repodata.json'')
      (joinpath root S) D w = (r, w1)"
    by (cases "reconstruct_repodata_json http_get json_of (C @ ''/repodata.json'')
      (joinpath root S) D w")
  with Cons.prems have r: "r = None" and rest: "reconstruct_all http_get json_of D root jobs w1 = (None, w')"
    by (auto simp: job split: option.splits)
  have "trace w1 = trace w @ [Download (C @ ''/repodata.json''),
      Write (joinpath (joinpath root S) ''repodata.json'')]"
    using step r by (simp add: reconstruct_repodata_json_trace)
  with Cons.IH [OF rest] show ?case by (simp add: job)
qed

text \<open>
  Claim C9.  With the channels and the subdirectories of the descriptors each listed
  once, in whatever order, the driver runs one reconstruction for each pair of a
  subdirectory and a channel of the descriptors such that the channel URL contains the
  subdirectory as a substring, and for no other pair: no pair occurs twice, a
  subdirectory that no channel contains gets none, and a subdirectory contained in
  several channels gets one per channel.  A run that completes has requested the index
  of the channel and written the index of the subdirectory once for each pair, in order.
\<close>

theorem reconstruction_per_matching_pair:
  assumes "\<forall>xs. distinct (listing xs) \<and> set (listing xs) = set xs"
  shows "set (repodata_jobs (listing (map channel D)) (listing (map subdir D)))
           = {(S, C). S \<in> subdir ` set D \<and> C \<in> channel ` set D \<and> sublist S C}
       \<and> distinct (repodata_jobs (listing (map channel D)) (listing (map subdir D)))
       \<and> create_repodata_json http_get json_of listing D root w
           = reconstruct_all http_get json_of D root
               (repodata_jobs (listing (map channel D)) (listing (map subdir D))) w
       \<and> (fst (create_repodata_json http_get json_of listing D root w) = None \<longrightarrow>
            trace (snd (create_repodata_json http_get json_of listing D root w))
            = trace w @ concat (map (\<lambda>(S, C). [Download (C @ ''/repodata.json''),
                    Write (joinpath (joinpath root S) ''repodata.json'')])
                (repodata_jobs (listing (map channel D)) (listing (map subdir D)))))"
proof -
  let ?jobs = "repodata_jobs (listing (map channel D)) (listing (map subdir D))"
  have s: "set ?jobs = {(S, C). S \<in> subdir ` set D \<and> C \<in> channel ` set D \<and> sublist S C}"
    using assms by (simp add: repodata_jobs_set)
  have d: "distinct ?jobs"
    using assms by (simp add: repodata_jobs_distinct)
  have c: "create_repodata_json http_get json_of listing D root w
           = reconstruct_all http_get json_of D root ?jobs w"
    by (simp add: create_repodata_json_def Let_def)
  have t: "trace (snd (create_repodata_json http_get json_of listing D root w))
            = trace w @ concat (map (\<lambda>(S, C). [Download (C @ ''/repodata.json''),
                    Write (joinpath (joinpath root S) ''repodata.json'')]) ?jobs)"
    if "fst (create_repodata_json http_get json_of listing D root w) = None"
  proof -
    from that have "reconstruct_all http_get json_of D root ?jobs w
        = (None, snd (reconstruct_all http_get json_of D root ?jobs w))"
      by (metis c prod.collapse)
    from reconstruct_all_trace [OF this] show ?thesis by (simp add: c)
  qed
  from s d c t show ?thesis by blast
qed

text \<open>
  The example: two descriptors, one in \<^verbatim>\<open>linux-64\<close> and one in \<^verbatim>\<open>noarch\<close>, each
  from the channel of its subdirectory; the listing keeps the first occurrences.
\<close>

theorem reconstruction_per_matching_pair_example:
  "(\<forall>xs::string list. distinct (remdups xs) \<and> set (remdups xs) = set xs)
   \<and> repodata_jobs (remdups (map channel [pkg_foo, pkg_bar])) (remdups (map subdir [pkg_foo, pkg_bar]))
      = [(''linux-64'', ''https://repo.example/main/linux-64''),
         (''noarch'', ''https://repo.example/main/noarch'')]
   \<and> distinct (repodata_jobs (remdups (map channel [pkg_foo, pkg_bar]))
        (remdups (map subdir [pkg_foo, pkg_bar])))
   \<and> fst (create_repodata_json example_get example_json remdups [pkg_foo, pkg_bar]
          [''home'', ''user'', ''env''] example_mirror) = None
   \<and> trace (snd (create_repodata_json example_get example_json remdups [pkg_foo, pkg_bar]
          [''home'', ''user'', ''env''] example_mirror))
      = [Download ''https://repo.example/main/linux-64/repodata.json'',
         Write [''home'', ''user'', ''env'', ''linux-64'', ''repodata.json''],
         Download ''https://repo.example/main/noarch/repodata.json'',
         Write [''home'', ''user'', ''env'', ''noarch'', ''repodata.json'']]"
proof -
  have l: "\<forall>xs::string list. distinct (remdups xs) \<and> set (remdups xs) = set xs"
    by simp
  have e: "repodata_jobs (remdups (map channel [pkg_foo, pkg_bar])) (remdups (map subdir [pkg_foo, pkg_bar]))
      = [(''linux-64'', ''https://repo.example/main/linux-64''),
         (''noarch'', ''https://repo.example/main/noarch'')]"
    by (simp add: repodata_jobs_def pkg_foo_def pkg_bar_def sublist_Cons_right)
  from reconstruction_per_matching_pair [OF l, of "[pkg_foo, pkg_bar]"]
  have "distinct (repodata_jobs (remdups (map channel [pkg_foo, pkg_bar]))
        (remdups (map subdir [pkg_foo, pkg_bar])))"
    by blast
  moreover have ok: "fst (create_repodata_json example_get example_json remdups [pkg_foo, pkg_bar]
          [''home'', ''user'', ''env''] example_mirror) = None"
    by (simp only: create_repodata_json_def Let_def e)
      (simp add: reconstruct_repodata_json_def
        example_get_def example_json_def write_file_def joinpath_def is_absolute_def parts_def
        record_event_def example_mirror_def)
  moreover from reconstruction_per_matching_pair [OF l, of "[pkg_foo, pkg_bar]"
      example_get example_json "[''home'', ''user'', ''env'']" example_mirror] ok
  have "trace (snd (create_repodata_json example_get example_json remdups [pkg_foo, pkg_bar]
          [''home'', ''user'', ''env''] example_mirror))
      = trace example_mirror @ concat (map (\<lambda>(S, C). [Download (C @ ''/repodata.json''),
                    Write (joinpath (joinpath [''home'', ''user'', ''env''] S) ''repodata.json'')])
                (repodata_jobs (remdups (map channel [pkg_foo, pkg_bar]))
                   (remdups (map subdir [pkg_foo, pkg_bar]))))"
    by blast
  then have "trace (snd (create_repodata_json example_get example_json remdups [pkg_foo, pkg_bar]
          [''home'', ''user'', ''env''] example_mirror))
      = [Download ''https://repo.example/main/linux-64/repodata.json'',
         Write [''home'', ''user'', ''env'', ''linux-64'', ''repodata.json''],
         Download ''https://repo.example/main/noarch/repodata.json'',
         Write [''home'', ''user'', ''env'', ''noarch'', ''repodata.json'']]"
    by (simp only: e) (simp add: joinpath_def is_absolute_def parts_def example_mirror_def)
  ultimately show ?thesis using l e by blast
qed

subsection \<open>Verification of the digest\<close>

lemma write_file_not_exit: "fst (write_file p c w) \<noteq> Some (SystemExit a)"
  by (simp add: write_file_def)


lemma download_packages_single:
  assumes "path_exists w (joinpath root (subdir pkg))" and "is_dir w (joinpath root (subdir pkg))"
    and "http_get (url pkg) = Some B"
  shows "download_packages hexdigest http_get [pkg] root platform w
     = (if sha256 pkg = Some (hexdigest B)
        then write_file (artifact_path root pkg) (Artifact B) (record_event (Download (url pkg)) w)
        else (Some (SystemExit (Message ''SHA256 Checksum Validation Failed'')),
              record_event (Download (url pkg)) w))"
  using assms by (auto simp: Let_def artifact_path_def split: prod.splits option.splits)

text \<open>
  Claim C1, as the code has it.  For every artifact byte string \<open>B\<close> served for a
  descriptor and every expected digest of the descriptor, the downloader accepts the
  artifact and proceeds to write it if and only if the expected digest is present and
  is the very string that \<^verbatim>\<open>hexdigest\<close> returns for \<open>B\<close>; otherwise the run exits
  with the checksum message.  The strings are compared as they are, so the case of the
  hexadecimal digits matters.
\<close>

theorem digest_accepted_iff_equal:
  "path_exists w (joinpath root (subdir pkg)) \<and> is_dir w (joinpath root (subdir pkg))
     \<and> http_get (url pkg) = Some B
   \<longrightarrow> ((fst (download_packages hexdigest http_get [pkg] root platform w)
           \<noteq> Some (SystemExit (Message ''SHA256 Checksum Validation Failed'')))
          = (sha256 pkg = Some (hexdigest B)))
       \<and> (sha256 pkg = Some (hexdigest B) \<longrightarrow>
            download_packages hexdigest http_get [pkg] root platform w
            = write_file (artifact_path root pkg) (Artifact B)
                (record_event (Download (url pkg)) w))
       \<and> (sha256 pkg \<noteq> Some (hexdigest B) \<longrightarrow>
            download_packages hexdigest http_get [pkg] root platform w
            = (Some (SystemExit (Message ''SHA256 Checksum Validation Failed'')),
               record_event (Download (url pkg)) w))"
proof (intro impI, elim conjE)
  assume h: "path_exists w (joinpath root (subdir pkg))" "is_dir w (joinpath root (subdir pkg))"
    "http_get (url pkg) = Some B"
  from h have single: "download_packages hexdigest http_get [pkg] root platform w
     = (if sha256 pkg = Some (hexdigest B)
        then write_file (artifact_path root pkg) (Artifact B) (record_event (Download (url pkg)) w)
        else (Some (SystemExit (Message ''SHA256 Checksum Validation Failed'')),
              record_event (Download (url pkg)) w))"
    by (rule download_packages_single)
  show "((fst (download_packages hexdigest http_get [pkg] root platform w)
           \<noteq> Some (SystemExit (Message ''SHA256 Checksum Validation Failed'')))
          = (sha256 pkg = Some (hexdigest B)))
       \<and> (sha256 pkg = Some (hexdigest B) \<longrightarrow>
            download_packages hexdigest http_get [pkg] root platform w
            = write_file (artifact_path root pkg) (Artifact B)
                (record_event (Download (url pkg)) w))
       \<and> (sha256 pkg \<noteq> Some (hexdigest B) \<longrightarrow>
            download_packages hexdigest http_get [pkg] root platform w
            = (Some (SystemExit (Message ''SHA256 Checksum Validation Failed'')),
               record_event (Download (url pkg)) w))"
    unfolding single by (simp add: write_file_not_exit)
qed

lemma example_paths:
  "joinpath [''home'', ''user'', ''env''] ''linux-64'' = [''home'', ''user'', ''env'', ''linux-64'']"
  "joinpath [''home'', ''user'', ''env''] ''noarch'' = [''home'', ''user'', ''env'', ''noarch'']"
  "joinpath [''home'', ''user'', ''env'', ''linux-64''] ''foo-1.0-0.tar.bz2''
     = [''home'', ''user'', ''env'', ''linux-64'', ''foo-1.0-0.tar.bz2'']"
  "joinpath [''home'', ''user'', ''env'', ''noarch''] ''bar-2.0-0.conda''
     = [''home'', ''user'', ''env'', ''noarch'', ''bar-2.0-0.conda'']"
  "joinpath [''home'', ''user''] ''env'' = [''home'', ''user'', ''env'']"
  by (simp_all add: joinpath_def is_absolute_def parts_def)

text \<open>
  The example for the amended claim: the empty artifact of \<^verbatim>\<open>foo\<close> with the digest as
  \<^verbatim>\<open>hexdigest\<close> prints it.
\<close>

theorem digest_accepted_iff_equal_example:
  "path_exists example_mirror (joinpath [''home'', ''user'', ''env''] (subdir pkg_foo))
   \<and> is_dir example_mirror (joinpath [''home'', ''user'', ''env''] (subdir pkg_foo))
   \<and> example_get (url pkg_foo) = Some []
   \<and> sha256 pkg_foo = Some (sha256_hexdigest [])
   \<and> fst (download_packages sha256_hexdigest example_get [pkg_foo]
          [''home'', ''user'', ''env''] ''linux-64'' example_mirror) = None
   \<and> files (snd (download_packages sha256_hexdigest example_get [pkg_foo]
          [''home'', ''user'', ''env''] ''linux-64'' example_mirror))
        [''home'', ''user'', ''env'', ''linux-64'', ''foo-1.0-0.tar.bz2''] = Some (Artifact [])"
proof -
  have p: "path_exists example_mirror (joinpath [''home'', ''user'', ''env''] (subdir pkg_foo))"
    "is_dir example_mirror (joinpath [''home'', ''user'', ''env''] (subdir pkg_foo))"
    by (simp_all add: pkg_foo_def example_paths path_exists_def is_dir_def example_mirror_def)
  have g: "example_get (url pkg_foo) = Some []"
    by (simp add: pkg_foo_def example_get_def)
  have d: "sha256 pkg_foo = Some (sha256_hexdigest [])"
    by (simp add: pkg_foo_def sha256_hexdigest_empty)
  from digest_accepted_iff_equal [of example_mirror "[''home'', ''user'', ''env'']" pkg_foo
      example_get "[]" sha256_hexdigest "''linux-64''"] p g d
  have run: "download_packages sha256_hexdigest example_get [pkg_foo]
          [''home'', ''user'', ''env''] ''linux-64'' example_mirror
      = write_file (artifact_path [''home'', ''user'', ''env''] pkg_foo) (Artifact [])
          (record_event (Download (url pkg_foo)) example_mirror)"
    by blast
  have w: "write_file (artifact_path [''home'', ''user'', ''env''] pkg_foo) (Artifact [])
          (record_event (Download (url pkg_foo)) example_mirror)
      = (None, record_event (Write [''home'', ''user'', ''env'', ''linux-64'', ''foo-1.0-0.tar.bz2''])
           ((record_event (Download (url pkg_foo)) example_mirror)
              \<lparr>files := [[''home'', ''user'', ''env'', ''linux-64'', ''foo-1.0-0.tar.bz2'']
                   \<mapsto> Artifact []]\<rparr>))"
    by (simp add: write_file_def artifact_path_def pkg_foo_def example_paths record_event_def
        example_mirror_def)
  from p g d show ?thesis
    unfolding run w by (simp add: record_event_def)
qed

text \<open>
  The claim as the specification states it fails: the lower-case SHA-256 of the empty
  artifact equals the lower-case form of the expected digest, which is spelled in upper
  case, and the run exits with the checksum message without writing the file.
\<close>

theorem digest_comparison_case_sensitive:
  "sha256_hexdigest [] = lowercase ''E3B0C44298FC1C149AFBF4C8996FB92427AE41E4649B934CA495991B7852B855''
   \<and> sha256 pkg_foo_upper = Some ''E3B0C44298FC1C149AFBF4C8996FB92427AE41E4649B934CA495991B7852B855''
   \<and> example_get (url pkg_foo_upper) = Some []
   \<and> fst (download_packages sha256_hexdigest example_get [pkg_foo_upper]
          [''home'', ''user'', ''env''] ''linux-64'' example_mirror)
      = Some (SystemExit (Message ''SHA256 Checksum Validation Failed''))
   \<and> files (snd (download_packages sha256_hexdigest example_get [pkg_foo_upper]
          [''home'', ''user'', ''env''] ''linux-64'' example_mirror))
        [''home'', ''user'', ''env'', ''linux-64'', ''foo-1.0-0.tar.bz2''] = None"
proof -
  have l: "sha256_hexdigest [] = lowercase ''E3B0C44298FC1C149AFBF4C8996FB92427AE41E4649B934CA495991B7852B855''"
    by (simp add: sha256_hexdigest_empty lowercase_def ascii_lower_def)
  have e: "sha256 pkg_foo_upper = Some ''E3B0C44298FC1C149AFBF4C8996FB92427AE41E4649B934CA495991B7852B855''"
    by (simp add: pkg_foo_upper_def)
  have g: "example_get (url pkg_foo_upper) = Some []"
    by (simp add: pkg_foo_upper_def pkg_foo_def example_get_def)
  have p: "path_exists example_mirror (joinpath [''home'', ''user'', ''env''] (subdir pkg_foo_upper))"
    "is_dir example_mirror (joinpath [''home'', ''user'', ''env''] (subdir pkg_foo_upper))"
    by (simp_all add: pkg_foo_upper_def pkg_foo_def example_paths path_exists_def is_dir_def
        example_mirror_def)
  have run: "download_packages sha256_hexdigest example_get [pkg_foo_upper]
          [''home'', ''user'', ''env''] ''linux-64'' example_mirror
      = (Some (SystemExit (Message ''SHA256 Checksum Validation Failed'')),
         record_event (Download (url pkg_foo_upper)) example_mirror)"
    unfolding download_packages_single [of example_mirror "[''home'', ''user'', ''env'']"
        pkg_foo_upper example_get "[]" sha256_hexdigest "''linux-64''", OF p g]
    by (simp add: e sha256_hexdigest_empty)
  from l e g show ?thesis
    unfolding run by (simp add: record_event_def example_mirror_def)
qed

subsection \<open>A mismatching digest aborts the run\<close>




lemma download_packages_append:
  "download_packages hexdigest http_get (xs @ ys) root platform w
     = (case download_packages hexdigest http_get xs root platform w of
          (Some e, w1) \<Rightarrow> (Some e, w1)
        | (None, w1) \<Rightarrow> download_packages hexdigest http_get ys root platform w1)"
proof (induction xs arbitrary: w)
  case Nil
  then show ?case by simp
next
  case (Cons x xs)
  show ?case
    by (simp add: Cons.IH Let_def split: option.splits prod.splits)
qed




subsection \<open>Effects of the stages of the vendor command\<close>

lemma mkdir_cases:
  "mkdir p w = (r, w') \<Longrightarrow>
     (r \<noteq> None \<and> w' = w)
     \<or> (r = None \<and> w' = record_event (Mkdir p) (w\<lparr>dirs := insert p (dirs w)\<rparr>))"
  by (auto simp: mkdir_def split: if_splits)

lemma mkdir_ok:
  "\<not> path_exists w p \<Longrightarrow> files w (butlast p) = None \<Longrightarrow> butlast p \<in> dirs w
     \<Longrightarrow> last p \<noteq> ''..''
     \<Longrightarrow> mkdir p w = (None, record_event (Mkdir p) (w\<lparr>dirs := insert p (dirs w)\<rparr>))"
  by (simp add: mkdir_def)

lemma make_directories_cases:
  assumes "make_directories root platform w = (r, w')"
  shows "(r = None \<and> files w' = files w
          \<and> trace w' = trace w @ [Mkdir root, Mkdir (joinpath root platform),
                                   Mkdir (joinpath root ''noarch'')]
          \<and> dirs w' = insert (joinpath root ''noarch'')
                         (insert (joinpath root platform) (insert root (dirs w))))
       \<or> (r \<noteq> None \<and> files w' = files w
          \<and> (\<exists>evs. trace w' = trace w @ evs \<and> (\<forall>ev \<in> set evs. \<not> is_write ev)))"
proof -
  obtain r1 w1 where m1: "mkdir root w = (r1, w1)" by (cases "mkdir root w")
  obtain r2 w2 where m2: "mkdir (joinpath root platform) w1 = (r2, w2)"
    by (cases "mkdir (joinpath root platform) w1")
  obtain r3 w3 where m3: "mkdir (joinpath root ''noarch'') w2 = (r3, w3)"
    by (cases "mkdir (joinpath root ''noarch'') w2")
  show ?thesis
  proof (cases r1)
    case (Some e)
    with assms m1 mkdir_cases [OF m1] show ?thesis
      by (auto simp: make_directories_def)
  next
    case n1: None
    with mkdir_cases [OF m1]
    have w1: "w1 = record_event (Mkdir root) (w\<lparr>dirs := insert root (dirs w)\<rparr>)" by simp
    show ?thesis
    proof (cases r2)
      case (Some e)
      with mkdir_cases [OF m2] have "w2 = w1" by simp
      with assms m1 m2 n1 Some w1 show ?thesis
        by (auto simp: make_directories_def record_event_def)
    next
      case n2: None
      with mkdir_cases [OF m2]
      have w2: "w2 = record_event (Mkdir (joinpath root platform))
                       (w1\<lparr>dirs := insert (joinpath root platform) (dirs w1)\<rparr>)" by simp
      show ?thesis
      proof (cases r3)
        case (Some e)
        with mkdir_cases [OF m3] have "w3 = w2" by simp
        with assms m1 m2 m3 n1 n2 Some w1 w2 show ?thesis
          by (auto simp: make_directories_def record_event_def)
      next
        case n3: None
        with mkdir_cases [OF m3]
        have w3: "w3 = record_event (Mkdir (joinpath root ''noarch''))
                       (w2\<lparr>dirs := insert (joinpath root ''noarch'') (dirs w2)\<rparr>)" by simp
        from assms m1 m2 m3 n1 n2 n3 have "r = None" "w' = w3"
          by (auto simp: make_directories_def)
        then show ?thesis
          by (simp add: w1 w2 w3 record_event_def)
      qed
    qed
  qed
qed

lemma make_directories_ok:
  assumes "\<not> path_exists w root" and "butlast root \<in> dirs w" and "files w (butlast root) = None"
    and "butlast (joinpath root platform) = root" and "\<not> path_exists w (joinpath root platform)"
    and "joinpath root platform \<noteq> joinpath root ''noarch''"
    and "\<not> path_exists w (joinpath root ''noarch'')"
    and "''..'' \<notin> set (joinpath root platform)"
  shows "fst (make_directories root platform w) = None"
proof -
  have rn: "joinpath root ''noarch'' = root @ [''noarch'']"
    by (simp add: joinpath_def is_absolute_def parts_def)
  have "root \<noteq> []"
    using assms(1,2) by (auto simp: path_exists_def)
  then have "butlast root \<noteq> root"
    by (metis append_butlast_last_id append_self_conv list.distinct(1))
  with assms(4) have ne: "joinpath root platform \<noteq> root"
    by auto
  have rp: "joinpath root platform \<noteq> []"
    using assms(4) \<open>root \<noteq> []\<close> by auto
  then have "joinpath root platform = root @ [last (joinpath root platform)]"
    using assms(4) by (metis append_butlast_last_id)
  with assms(8) have l1: "last root \<noteq> ''..''" and l2: "last (joinpath root platform) \<noteq> ''..''"
    using \<open>root \<noteq> []\<close> by (metis last_in_set Un_iff set_append, metis last_in_set rp)
  let ?w1 = "record_event (Mkdir root) (w\<lparr>dirs := insert root (dirs w)\<rparr>)"
  have m1: "mkdir root w = (None, ?w1)"
    using assms l1 by (intro mkdir_ok) simp_all
  let ?w2 = "record_event (Mkdir (joinpath root platform))
               (?w1\<lparr>dirs := insert (joinpath root platform) (dirs ?w1)\<rparr>)"
  have f: "files w root = None"
    using assms(1) by (simp add: path_exists_def)
  have m2: "mkdir (joinpath root platform) ?w1 = (None, ?w2)"
    using assms ne f l2 by (intro mkdir_ok) (simp_all add: path_exists_def record_event_def)
  have m3: "fst (mkdir (joinpath root ''noarch'') ?w2) = None"
    using assms f unfolding rn
    by (simp add: mkdir_def path_exists_def record_event_def)
  show ?thesis
    using m3 by (simp add: make_directories_def m1 m2 split: prod.splits option.splits)
qed

lemma conda_lock_writes_trace: "trace (conda_lock_writes f w) = trace w"
  by (simp add: conda_lock_writes_def)

lemma solve_environment_trace:
  "solve_environment cl solver platform w = ((res, w'), out)
     \<Longrightarrow> trace w' = trace w \<or> trace w' = trace w @ [Solve]"
  by (auto simp: solve_environment_def Let_def conda_lock_writes_def record_event_def
      split: option.splits if_splits)

lemma reconstruct_repodata_json_effect:
  assumes "reconstruct_repodata_json http_get json_of u dest_dir D w = (r, w')"
  shows "dirs w' = dirs w \<and> prefix (trace w) (trace w')"
proof (cases r)
  case None
  with reconstruct_repodata_json_cases [of http_get json_of u dest_dir D w w'] assms
  show ?thesis by (auto simp: record_event_def)
next
  case (Some e)
  show ?thesis
  proof (cases "http_get u")
    case None
    with assms show ?thesis
      by (auto simp: reconstruct_repodata_json_def record_event_def)
  next
    case g: (Some body)
    show ?thesis
    proof (cases "json_of body")
      case None
      with assms g show ?thesis
        by (auto simp: reconstruct_repodata_json_def record_event_def)
    next
      case (Some U)
      with assms g
      have "write_file (joinpath dest_dir ''repodata.json'')
              (Repodata_json (reconstruct_repodata dest_dir D U))
              (record_event (Download u) w) = (r, w')"
        by (simp add: reconstruct_repodata_json_def)
      from write_file_cases [OF this] show ?thesis
        by (auto simp: record_event_def)
    qed
  qed
qed

lemma reconstruct_all_effect:
  "reconstruct_all http_get json_of D root jobs w = (r, w')
     \<Longrightarrow> dirs w' = dirs w \<and> prefix (trace w) (trace w')"
proof (induction jobs arbitrary: w)
  case Nil
  then show ?case by simp
next
  case (Cons job jobs)
  obtain S C where job: "job = (S, C)" by (cases job)
  obtain r1 w1 where step: "reconstruct_repodata_json http_get json_of (C @ ''/repodata.json'')
      (joinpath root S) D w = (r1, w1)"
    by (cases "reconstruct_repodata_json http_get json_of (C @ ''/repodata.json'')
      (joinpath root S) D w")
  note e1 = reconstruct_repodata_json_effect [OF step]
  show ?case
  proof (cases r1)
    case (Some e)
    with Cons.prems step job e1 show ?thesis by auto
  next
    case None
    with Cons.prems step job
    have "reconstruct_all http_get json_of D root jobs w1 = (r, w')" by simp
    from Cons.IH [OF this] e1 show ?thesis
      by (metis prefix_order.trans)
  qed
qed

lemma create_repodata_json_effect:
  "create_repodata_json http_get json_of listing D root w = (r, w')
     \<Longrightarrow> dirs w' = dirs w \<and> prefix (trace w) (trace w')"
  unfolding create_repodata_json_def Let_def by (rule reconstruct_all_effect)

lemma download_packages_trace:
  "download_packages hexdigest http_get D root platform w = (r, w')
     \<Longrightarrow> prefix (trace w) (trace w')"
proof (induction D arbitrary: w r w' rule: rev_induct)
  case Nil
  then show ?case by simp
next
  case (snoc pkg D)
  obtain r0 w0 where pre: "download_packages hexdigest http_get D root platform w = (r0, w0)"
    by (cases "download_packages hexdigest http_get D root platform w")
  note p0 = snoc.IH [OF pre]
  show ?case
  proof (cases r0)
    case (Some e)
    with snoc.prems pre p0 show ?thesis
      by (simp add: download_packages_append del: download_packages.simps)
  next
    case None
    with snoc.prems pre
    have last: "download_packages hexdigest http_get [pkg] root platform w0 = (r, w')"
      by (simp add: download_packages_append del: download_packages.simps)
    have "prefix (trace w0) (trace w')"
    proof (cases "http_get (url pkg)")
      case None
      with last show ?thesis
        by (auto simp: Let_def record_event_def split: if_splits)
    next
      case (Some B)
      show ?thesis
      proof (cases "path_exists w0 (joinpath root (subdir pkg)) \<and> is_dir w0 (joinpath root (subdir pkg))")
        case False
        with last show ?thesis by (auto simp: Let_def)
      next
        case True
        then have single: "download_packages hexdigest http_get [pkg] root platform w0
          = (if sha256 pkg = Some (hexdigest B)
             then write_file (artifact_path root pkg) (Artifact B) (record_event (Download (url pkg)) w0)
             else (Some (SystemExit (Message ''SHA256 Checksum Validation Failed'')),
                   record_event (Download (url pkg)) w0))"
          using Some download_packages_single [of w0 root pkg http_get B hexdigest platform]
          by blast
        show ?thesis
        proof (cases "sha256 pkg = Some (hexdigest B)")
          case False
          with last show ?thesis unfolding single by (auto simp: record_event_def)
        next
          case True
          with last have "write_file (artifact_path root pkg) (Artifact B)
              (record_event (Download (url pkg)) w0) = (r, w')"
            unfolding single by simp
          from write_file_cases [OF this] show ?thesis
            by (auto simp: record_event_def)
        qed
      qed
    qed
    with p0 show ?thesis by (metis prefix_order.trans)
  qed
qed

lemma yaml_dump_ironbank_manifest_effect:
  "yaml_dump_ironbank_manifest cwd D w = (r, w')
     \<Longrightarrow> dirs w' = dirs w \<and> prefix (trace w) (trace w')"
  unfolding yaml_dump_ironbank_manifest_def
  by (drule write_file_cases) (auto simp: record_event_def)

lemma vendor_exists:
  "path_exists w (joinpath cwd nm) \<Longrightarrow>
   vendor hexdigest http_get json_of listing cl (Some nm) cwd file solver platform
     dry_run ironbank_gen w
   = ((Some (SystemExit (Code 1)), w), [Vendoring_file file, Destination_exists (joinpath cwd nm)])"
  by (simp add: vendor_def Let_def)

lemma vendor_dry_run:
  "\<not> path_exists w (joinpath cwd nm) \<Longrightarrow>
   vendor hexdigest http_get json_of listing cl (Some nm) cwd file solver platform
     True ironbank_gen w
   = (case solve_environment cl solver platform w of
        ((Inl e, w2), out2) \<Rightarrow> ((Some e, w2), [Vendoring_file file, Dry_run_notice] @ out2)
      | ((Inr package_list, w2), out2) \<Rightarrow>
          ((Some (SystemExit (Code 0)), w2),
           [Vendoring_file file, Dry_run_notice] @ out2 @ [Dry_run_complete, Json package_list]))"
  by (simp add: vendor_def Let_def split: prod.splits sum.splits)

lemma vendor_mkdir_failed:
  "\<not> path_exists w (joinpath cwd nm) \<Longrightarrow>
   make_directories (joinpath cwd nm) platform w = (Some e, w1) \<Longrightarrow>
   fst (vendor hexdigest http_get json_of listing cl (Some nm) cwd file solver platform
     False ironbank_gen w) = (Some e, w1)"
  by (simp add: vendor_def Let_def)

lemma vendor_after_mkdir:
  assumes "\<not> path_exists w (joinpath cwd nm)"
    and "make_directories (joinpath cwd nm) platform w = (None, w1)"
  shows "prefix (trace w1) (trace (snd (fst (vendor hexdigest http_get json_of listing cl
                      (Some nm) cwd file solver platform False ironbank_gen w))))"
proof -
  let ?root = "joinpath cwd nm"
  let ?v = "vendor hexdigest http_get json_of listing cl (Some nm)
              cwd file solver platform False ironbank_gen w"
  obtain res w2 out2 where s: "solve_environment cl solver platform w1 = ((res, w2), out2)"
    by (cases "solve_environment cl solver platform w1") auto
  have w2: "prefix (trace w1) (trace w2)"
    using solve_environment_trace [OF s] by auto
  show ?thesis
  proof (cases res)
    case (Inl e)
    with assms s have "fst ?v = (Some e, w2)" by (simp add: vendor_def Let_def)
    with w2 show ?thesis by simp
  next
    case (Inr pl)
    obtain r3 w3 where c: "create_repodata_json http_get json_of listing pl ?root w2 = (r3, w3)"
      by (cases "create_repodata_json http_get json_of listing pl ?root w2")
    from create_repodata_json_effect [OF c] w2
    have w3: "prefix (trace w1) (trace w3)"
      by (auto intro: prefix_order.trans)
    show ?thesis
    proof (cases r3)
      case (Some e)
      with assms s Inr c have "fst ?v = (Some e, w3)" by (simp add: vendor_def Let_def)
      with w3 show ?thesis by simp
    next
      case n3: None
      obtain r4 w4 where d: "download_packages hexdigest http_get pl ?root platform w3 = (r4, w4)"
        by (cases "download_packages hexdigest http_get pl ?root platform w3")
      from download_packages_trace [OF d] w3
      have w4: "prefix (trace w1) (trace w4)"
        by (auto intro: prefix_order.trans)
      show ?thesis
      proof (cases r4)
        case (Some e)
        with assms s Inr c n3 d have "fst ?v = (Some e, w4)" by (simp add: vendor_def Let_def)
        with w4 show ?thesis by simp
      next
        case n4: None
        show ?thesis
        proof (cases ironbank_gen)
          case False
          with assms s Inr c n3 d n4 have "fst ?v = (None, w4)" by (simp add: vendor_def Let_def)
          with w4 show ?thesis by simp
        next
          case True
          obtain r5 w5 where y: "yaml_dump_ironbank_manifest cwd pl w4 = (r5, w5)"
            by (cases "yaml_dump_ironbank_manifest cwd pl w4")
          from yaml_dump_ironbank_manifest_effect [OF y] w4
          have w5: "prefix (trace w1) (trace w5)"
            by (auto intro: prefix_order.trans)
          from True assms s Inr c n3 d n4 y have "fst ?v = (r5, w5)" by (simp add: vendor_def Let_def)
          with w5 show ?thesis by simp
        qed
      qed
    qed
  qed
qed

lemma solve_environment_files:
  assumes "solve_environment cl solver platform w = ((res, w'), out)"
  shows "(dirs w', files w') = (dirs w, files w)
     \<or> (dirs w', files w') = virtual_package_files cl (dirs w, files w)
     \<or> (dirs w', files w') = solver_files cl (virtual_package_files cl (dirs w, files w))
     \<or> (dirs w', files w')
         = reconstruct_files cl (solver_files cl (virtual_package_files cl (dirs w, files w)))"
  using assms
  by (auto simp: solve_environment_def Let_def conda_lock_writes_def record_event_def
      split: option.splits if_splits)

lemma solve_environment_ok:
  assumes "parse_environment_file cl = Some ls" and "virtual_package_repo cl = Some vp"
    and "all_repodata vp platform = Some pkgs"
    and "solve_specs_for_arch cl solver (spec_channels ls @ [channel_url vp])
           (get_query_list ls) platform = Some sol"
    and "success sol"
    and "reconstruct_fetch_actions cl solver platform (remove_channel sol (channel_url vp))
           = Some patched"
  shows "solve_environment cl solver platform w
     = ((Inr (FETCH patched),
         conda_lock_writes (reconstruct_files cl)
           (record_event Solve (conda_lock_writes (solver_files cl)
              (conda_lock_writes (virtual_package_files cl) w)))),
        [Using_solver solver, Solving_for_platform platform,
         Solving_for_spec (get_query_list ls), Virtual_packages_header]
        @ map (\<lambda>(_, pkg). Virtual_package (vp_name pkg) (vp_version pkg)) pkgs
        @ [Successful_solve])"
  using assms by (simp add: solve_environment_def Let_def remove_channel_def)

lemma solve_environment_echo:
  "solve_environment cl solver platform w = ((res, w'), out) \<Longrightarrow> list_all (\<lambda>line. \<not> is_json line) out"
  by (auto simp: solve_environment_def Let_def list_all_iff split: option.splits if_splits)

lemma solve_environment_not_exit_0:
  "solve_environment cl solver platform w = ((Inl e, w'), out) \<Longrightarrow> e \<noteq> SystemExit (Code 0)"
  by (auto simp: solve_environment_def Let_def split: option.splits if_splits)

lemma example_query_list:
  "get_query_list example_lock_spec = [''foo==1.0'', ''bar>=2'', ''pip'']"
  by (simp add: get_query_list_def example_lock_spec_def isnumeric_def)

lemma example_fetch:
  "FETCH (remove_channel example_solution ''file:///tmp/virtual'') = [pkg_foo, pkg_bar]"
  by (simp add: remove_channel_def example_solution_def pkg_virtual_def pkg_foo_def pkg_bar_def)

lemma remove_channel_success: "success (remove_channel solution c) = success solution"
  by (simp add: remove_channel_def)

lemma example_conda_lock_calls:
  "parse_environment_file example_conda_lock = Some example_lock_spec"
  "virtual_package_repo example_conda_lock = Some example_virtual_packages"
  "virtual_package_files example_conda_lock x = x"
  "solve_specs_for_arch example_conda_lock solver chans specs platform = Some example_solution"
  "solver_files example_conda_lock x = x"
  "reconstruct_fetch_actions example_conda_lock solver platform sol = Some sol"
  "reconstruct_files example_conda_lock x = x"
  by (simp_all add: example_conda_lock_def)

lemma example_virtual_packages_fields:
  "all_repodata example_virtual_packages ''linux-64''
     = Some [(''__glibc-2.17-0.tar.bz2'', \<lparr>vp_name = ''__glibc'', vp_version = ''2.17''\<rparr>)]"
  "all_repodata example_virtual_packages ''linux-32'' = None"
  "channel_url example_virtual_packages = ''file:///tmp/virtual''"
  by (simp_all add: example_virtual_packages_def)

lemma conda_lock_writes_nothing: "conda_lock_writes (\<lambda>fs. fs) w = w"
  by (simp add: conda_lock_writes_def)

lemma example_solve:
  "solve_environment example_conda_lock ''conda'' ''linux-64'' w
     = ((Inr [pkg_foo, pkg_bar], record_event Solve w),
        [Using_solver ''conda'', Solving_for_platform ''linux-64'',
         Solving_for_spec [''foo==1.0'', ''bar>=2'', ''pip''], Virtual_packages_header,
         Virtual_package ''__glibc'' ''2.17'', Successful_solve])"
proof -
  have s: "success example_solution"
    by (simp add: example_solution_def)
  have w: "conda_lock_writes (reconstruct_files example_conda_lock)
             (record_event Solve (conda_lock_writes (solver_files example_conda_lock)
                (conda_lock_writes (virtual_package_files example_conda_lock) w)))
           = record_event Solve w"
    by (simp add: example_conda_lock_def conda_lock_writes_nothing)
  from solve_environment_ok [of example_conda_lock example_lock_spec example_virtual_packages
      "''linux-64''" "[(''__glibc-2.17-0.tar.bz2'', \<lparr>vp_name = ''__glibc'', vp_version = ''2.17''\<rparr>)]"
      "''conda''" example_solution "remove_channel example_solution ''file:///tmp/virtual''" w]
  show ?thesis
    unfolding w
    by (simp add: example_conda_lock_calls example_virtual_packages_fields s example_fetch
        example_query_list)
qed

subsection \<open>The vendor command\<close>

text \<open>
  Claim C10.  In a dry run, too, an existing destination root makes the vendor command
  exit with status 1 before the solver is called: the state, with its record of events,
  is the one the run started in, and the two status lines of the start and of the
  failure are all that is printed.
\<close>

theorem dry_run_checks_destination:
  "path_exists w (joinpath cwd nm) \<longrightarrow>
     fst (vendor hexdigest http_get json_of listing cl (Some nm) cwd file solver platform
            True ironbank_gen w) = (Some (SystemExit (Code 1)), w)
     \<and> snd (vendor hexdigest http_get json_of listing cl (Some nm) cwd file solver platform
            True ironbank_gen w) = [Vendoring_file file, Destination_exists (joinpath cwd nm)]
     \<and> exit_code (Code 1) = 1"
  by (simp add: vendor_exists)

text \<open>The example: a dry run into the directory of a finished mirror.\<close>

theorem dry_run_checks_destination_example:
  "path_exists example_mirror (joinpath [''home'', ''user''] ''env'')
   \<and> vendor sha256_hexdigest example_get example_json remdups example_conda_lock (Some ''env'')
       [''home'', ''user''] ''environment.yaml'' ''conda'' ''linux-64'' True False example_mirror
     = ((Some (SystemExit (Code 1)), example_mirror),
        [Vendoring_file ''environment.yaml'', Destination_exists [''home'', ''user'', ''env'']])"
proof -
  have e: "path_exists example_mirror (joinpath [''home'', ''user''] ''env'')"
    by (simp add: example_paths path_exists_def example_mirror_def)
  with dry_run_checks_destination [of example_mirror "[''home'', ''user'']" "''env''"
      sha256_hexdigest example_get example_json remdups example_conda_lock
      "''environment.yaml''" "''conda''" "''linux-64''" False]
  show ?thesis
    by (simp add: example_paths prod_eq_iff)
qed

text \<open>
  Claim C6, as the code has it.  In a dry run whose destination root does not exist
  (a path without \<^verbatim>\<open>..\<close>), \<^verbatim>\<open>vendor\<close> makes no directory, requests nothing and
  writes no file: the only step on record is the call of the solver, if the run gets
  that far, and the directories and files at the end are those that the calls into
  conda-lock have left (the repository of virtual packages, the solver, the
  reconstruction of the fetch actions), so they are the initial ones whenever
  conda-lock writes nothing.  When the environment file is
  parsed, the repository of virtual packages has the platform, the solver reports
  success and the fetch actions are reconstructed, the run exits with status 0 and
  has printed the status lines and, last, the resolved descriptor list with the
  virtual-package channel removed.  A dry run exits with status 0 only with the list
  printed last and nowhere before; any other dry run ends with an error or with status
  1 and does not print the list.
\<close>

theorem dry_run_changes_nothing:
  "\<not> path_exists w (joinpath cwd nm) \<and> ''..'' \<notin> set (joinpath cwd nm) \<longrightarrow>
     (trace (snd (fst (vendor hexdigest http_get json_of listing cl (Some nm) cwd file solver
                         platform True ironbank_gen w))) = trace w
      \<or> trace (snd (fst (vendor hexdigest http_get json_of listing cl (Some nm) cwd file solver
                         platform True ironbank_gen w))) = trace w @ [Solve])
     \<and> ((dirs (snd (fst (vendor hexdigest http_get json_of listing cl (Some nm) cwd file solver
                            platform True ironbank_gen w))),
          files (snd (fst (vendor hexdigest http_get json_of listing cl (Some nm) cwd file solver
                            platform True ironbank_gen w))))
         \<in> {(dirs w, files w),
             virtual_package_files cl (dirs w, files w),
             solver_files cl (virtual_package_files cl (dirs w, files w)),
             reconstruct_files cl (solver_files cl (virtual_package_files cl (dirs w, files w)))})
     \<and> ((\<forall>x. virtual_package_files cl x = x) \<and> (\<forall>x. solver_files cl x = x)
          \<and> (\<forall>x. reconstruct_files cl x = x)
        \<longrightarrow> dirs (snd (fst (vendor hexdigest http_get json_of listing cl (Some nm) cwd file
                               solver platform True ironbank_gen w))) = dirs w
            \<and> files (snd (fst (vendor hexdigest http_get json_of listing cl (Some nm) cwd file
                               solver platform True ironbank_gen w))) = files w)
     \<and> (\<forall>ls vp pkgs sol patched.
           parse_environment_file cl = Some ls \<and> virtual_package_repo cl = Some vp
           \<and> all_repodata vp platform = Some pkgs
           \<and> solve_specs_for_arch cl solver (spec_channels ls @ [channel_url vp])
                (get_query_list ls) platform = Some sol
           \<and> success sol
           \<and> reconstruct_fetch_actions cl solver platform
                (remove_channel sol (channel_url vp)) = Some patched
         \<longrightarrow> fst (fst (vendor hexdigest http_get json_of listing cl (Some nm) cwd file solver
                          platform True ironbank_gen w)) = Some (SystemExit (Code 0))
             \<and> snd (vendor hexdigest http_get json_of listing cl (Some nm) cwd file solver
                          platform True ironbank_gen w)
               = [Vendoring_file file, Dry_run_notice, Using_solver solver,
                  Solving_for_platform platform, Solving_for_spec (get_query_list ls),
                  Virtual_packages_header]
                 @ map (\<lambda>(_, pkg). Virtual_package (vp_name pkg) (vp_version pkg)) pkgs
                 @ [Successful_solve, Dry_run_complete, Json (FETCH patched)])
     \<and> (fst (fst (vendor hexdigest http_get json_of listing cl (Some nm) cwd file solver
                     platform True ironbank_gen w)) = Some (SystemExit (Code 0))
        \<longrightarrow> (\<exists>out package_list.
               snd (vendor hexdigest http_get json_of listing cl (Some nm) cwd file solver
                      platform True ironbank_gen w) = out @ [Json package_list]
               \<and> list_all (\<lambda>line. \<not> is_json line) out))
     \<and> (fst (fst (vendor hexdigest http_get json_of listing cl (Some nm) cwd file solver
                     platform True ironbank_gen w)) \<noteq> Some (SystemExit (Code 0))
        \<longrightarrow> list_all (\<lambda>line. \<not> is_json line)
              (snd (vendor hexdigest http_get json_of listing cl (Some nm) cwd file solver
                      platform True ironbank_gen w)))"
proof
  assume "\<not> path_exists w (joinpath cwd nm) \<and> ''..'' \<notin> set (joinpath cwd nm)"
  then have n: "\<not> path_exists w (joinpath cwd nm)" by simp
  let ?v = "vendor hexdigest http_get json_of listing cl (Some nm) cwd file solver
              platform True ironbank_gen w"
  let ?V = "virtual_package_files cl" and ?S = "solver_files cl" and ?R = "reconstruct_files cl"
  obtain res w2 out2 where s: "solve_environment cl solver platform w = ((res, w2), out2)"
    by (cases "solve_environment cl solver platform w") auto
  have v: "?v = (case res of
                   Inl e \<Rightarrow> ((Some e, w2), [Vendoring_file file, Dry_run_notice] @ out2)
                 | Inr package_list \<Rightarrow>
                     ((Some (SystemExit (Code 0)), w2),
                      [Vendoring_file file, Dry_run_notice] @ out2
                      @ [Dry_run_complete, Json package_list]))"
    by (simp add: vendor_dry_run [OF n] s split: sum.splits)
  have state: "snd (fst ?v) = w2"
    by (cases res) (simp_all add: v)
  have steps: "trace (snd (fst ?v)) = trace w \<or> trace (snd (fst ?v)) = trace w @ [Solve]"
    unfolding state by (rule solve_environment_trace [OF s])
  have left: "(dirs (snd (fst ?v)), files (snd (fst ?v)))
         \<in> {(dirs w, files w), ?V (dirs w, files w), ?S (?V (dirs w, files w)),
             ?R (?S (?V (dirs w, files w)))}"
    unfolding state using solve_environment_files [OF s] by blast
  have same: "dirs (snd (fst ?v)) = dirs w \<and> files (snd (fst ?v)) = files w"
    if "(\<forall>x. ?V x = x) \<and> (\<forall>x. ?S x = x) \<and> (\<forall>x. ?R x = x)"
    using left that by auto
  have ok: "fst (fst ?v) = Some (SystemExit (Code 0))
             \<and> snd ?v
               = [Vendoring_file file, Dry_run_notice, Using_solver solver,
                  Solving_for_platform platform, Solving_for_spec (get_query_list ls),
                  Virtual_packages_header]
                 @ map (\<lambda>(_, pkg). Virtual_package (vp_name pkg) (vp_version pkg)) pkgs
                 @ [Successful_solve, Dry_run_complete, Json (FETCH patched)]"
    if h: "parse_environment_file cl = Some ls \<and> virtual_package_repo cl = Some vp
           \<and> all_repodata vp platform = Some pkgs
           \<and> solve_specs_for_arch cl solver (spec_channels ls @ [channel_url vp])
                (get_query_list ls) platform = Some sol
           \<and> success sol
           \<and> reconstruct_fetch_actions cl solver platform
                (remove_channel sol (channel_url vp)) = Some patched"
    for ls vp pkgs sol patched
  proof -
    from h have "solve_environment cl solver platform w
     = ((Inr (FETCH patched),
         conda_lock_writes (reconstruct_files cl)
           (record_event Solve (conda_lock_writes (solver_files cl)
              (conda_lock_writes (virtual_package_files cl) w)))),
        [Using_solver solver, Solving_for_platform platform,
         Solving_for_spec (get_query_list ls), Virtual_packages_header]
        @ map (\<lambda>(_, pkg). Virtual_package (vp_name pkg) (vp_version pkg)) pkgs
        @ [Successful_solve])"
      by (intro solve_environment_ok [of cl ls vp platform pkgs solver sol patched w]) simp_all
    with s have "res = Inr (FETCH patched)"
      and "out2 = [Using_solver solver, Solving_for_platform platform,
         Solving_for_spec (get_query_list ls), Virtual_packages_header]
        @ map (\<lambda>(_, pkg). Virtual_package (vp_name pkg) (vp_version pkg)) pkgs
        @ [Successful_solve]"
      by simp_all
    then show ?thesis by (simp add: v)
  qed
  note quiet = solve_environment_echo [OF s]
  have last: "\<exists>out package_list. snd ?v = out @ [Json package_list]
               \<and> list_all (\<lambda>line. \<not> is_json line) out"
    if e: "fst (fst ?v) = Some (SystemExit (Code 0))"
  proof (cases res)
    case (Inl err)
    with e have "err = SystemExit (Code 0)" by (simp add: v)
    with solve_environment_not_exit_0 [of cl solver platform w err w2 out2] s Inl
    show ?thesis by simp
  next
    case (Inr pl)
    have "snd ?v = ([Vendoring_file file, Dry_run_notice] @ out2 @ [Dry_run_complete]) @ [Json pl]"
      by (simp add: v Inr)
    moreover have "list_all (\<lambda>line. \<not> is_json line)
        ([Vendoring_file file, Dry_run_notice] @ out2 @ [Dry_run_complete])"
      using quiet by simp
    ultimately show ?thesis by blast
  qed
  have none: "list_all (\<lambda>line. \<not> is_json line) (snd ?v)"
    if e: "fst (fst ?v) \<noteq> Some (SystemExit (Code 0))"
  proof (cases res)
    case (Inl err)
    then show ?thesis using quiet by (simp add: v)
  next
    case (Inr pl)
    with e show ?thesis by (simp add: v)
  qed
  from steps left same ok last none
  show "(trace (snd (fst ?v)) = trace w \<or> trace (snd (fst ?v)) = trace w @ [Solve])
     \<and> ((dirs (snd (fst ?v)), files (snd (fst ?v)))
         \<in> {(dirs w, files w), ?V (dirs w, files w), ?S (?V (dirs w, files w)),
             ?R (?S (?V (dirs w, files w)))})
     \<and> ((\<forall>x. ?V x = x) \<and> (\<forall>x. ?S x = x) \<and> (\<forall>x. ?R x = x)
        \<longrightarrow> dirs (snd (fst ?v)) = dirs w \<and> files (snd (fst ?v)) = files w)
     \<and> (\<forall>ls vp pkgs sol patched.
           parse_environment_file cl = Some ls \<and> virtual_package_repo cl = Some vp
           \<and> all_repodata vp platform = Some pkgs
           \<and> solve_specs_for_arch cl solver (spec_channels ls @ [channel_url vp])
                (get_query_list ls) platform = Some sol
           \<and> success sol
           \<and> reconstruct_fetch_actions cl solver platform
                (remove_channel sol (channel_url vp)) = Some patched
         \<longrightarrow> fst (fst ?v) = Some (SystemExit (Code 0))
             \<and> snd ?v
               = [Vendoring_file file, Dry_run_notice, Using_solver solver,
                  Solving_for_platform platform, Solving_for_spec (get_query_list ls),
                  Virtual_packages_header]
                 @ map (\<lambda>(_, pkg). Virtual_package (vp_name pkg) (vp_version pkg)) pkgs
                 @ [Successful_solve, Dry_run_complete, Json (FETCH patched)])
     \<and> (fst (fst ?v) = Some (SystemExit (Code 0))
        \<longrightarrow> (\<exists>out package_list. snd ?v = out @ [Json package_list]
               \<and> list_all (\<lambda>line. \<not> is_json line) out))
     \<and> (fst (fst ?v) \<noteq> Some (SystemExit (Code 0))
        \<longrightarrow> list_all (\<lambda>line. \<not> is_json line) (snd ?v))"
    by blast
qed

text \<open>The example: a dry run where nothing exists yet under the name of the environment.\<close>

theorem dry_run_changes_nothing_example:
  "\<not> path_exists example_world (joinpath [''home'', ''user''] ''env'')
   \<and> ''..'' \<notin> set (joinpath [''home'', ''user''] ''env'')
   \<and> dirs (snd (fst (vendor sha256_hexdigest example_get example_json remdups example_conda_lock
        (Some ''env'') [''home'', ''user''] ''environment.yaml'' ''conda'' ''linux-64'' True False
        example_world))) = dirs example_world
   \<and> files (snd (fst (vendor sha256_hexdigest example_get example_json remdups example_conda_lock
        (Some ''env'') [''home'', ''user''] ''environment.yaml'' ''conda'' ''linux-64'' True False
        example_world))) = files example_world
   \<and> fst (fst (vendor sha256_hexdigest example_get example_json remdups example_conda_lock
        (Some ''env'') [''home'', ''user''] ''environment.yaml'' ''conda'' ''linux-64'' True False
        example_world)) = Some (SystemExit (Code 0))
   \<and> snd (vendor sha256_hexdigest example_get example_json remdups example_conda_lock
        (Some ''env'') [''home'', ''user''] ''environment.yaml'' ''conda'' ''linux-64'' True False
        example_world)
     = [Vendoring_file ''environment.yaml'', Dry_run_notice, Using_solver ''conda'',
        Solving_for_platform ''linux-64'', Solving_for_spec [''foo==1.0'', ''bar>=2'', ''pip''],
        Virtual_packages_header, Virtual_package ''__glibc'' ''2.17'', Successful_solve,
        Dry_run_complete, Json [pkg_foo, pkg_bar]]"
proof -
  let ?v = "vendor sha256_hexdigest example_get example_json remdups example_conda_lock
        (Some ''env'') [''home'', ''user''] ''environment.yaml'' ''conda'' ''linux-64'' True False
        example_world"
  have n: "\<not> path_exists example_world (joinpath [''home'', ''user''] ''env'')"
    "''..'' \<notin> set (joinpath [''home'', ''user''] ''env'')"
    by (simp_all add: example_paths path_exists_def example_world_def)
  have quiet: "(\<forall>x. virtual_package_files example_conda_lock x = x)
      \<and> (\<forall>x. solver_files example_conda_lock x = x)
      \<and> (\<forall>x. reconstruct_files example_conda_lock x = x)"
    by (simp add: example_conda_lock_calls)
  have path: "parse_environment_file example_conda_lock = Some example_lock_spec
      \<and> virtual_package_repo example_conda_lock = Some example_virtual_packages
      \<and> all_repodata example_virtual_packages ''linux-64''
          = Some [(''__glibc-2.17-0.tar.bz2'', \<lparr>vp_name = ''__glibc'', vp_version = ''2.17''\<rparr>)]
      \<and> solve_specs_for_arch example_conda_lock ''conda''
            (spec_channels example_lock_spec @ [channel_url example_virtual_packages])
            (get_query_list example_lock_spec) ''linux-64'' = Some example_solution
      \<and> success example_solution
      \<and> reconstruct_fetch_actions example_conda_lock ''conda'' ''linux-64''
            (remove_channel example_solution (channel_url example_virtual_packages))
          = Some (remove_channel example_solution ''file:///tmp/virtual'')"
    by (simp add: example_conda_lock_calls example_virtual_packages_fields example_solution_def)
  note inst = dry_run_changes_nothing [of example_world "[''home'', ''user'']" "''env''"
      sha256_hexdigest example_get example_json remdups example_conda_lock
      "''environment.yaml''" "''conda''" "''linux-64''" False]
  from inst n quiet
  have same: "dirs (snd (fst ?v)) = dirs example_world \<and> files (snd (fst ?v)) = files example_world"
    by blast
  from inst n path
  have ok: "fst (fst ?v) = Some (SystemExit (Code 0))
      \<and> snd ?v
        = [Vendoring_file ''environment.yaml'', Dry_run_notice, Using_solver ''conda'',
           Solving_for_platform ''linux-64'', Solving_for_spec (get_query_list example_lock_spec),
           Virtual_packages_header]
          @ map (\<lambda>(_, pkg). Virtual_package (vp_name pkg) (vp_version pkg))
              [(''__glibc-2.17-0.tar.bz2'', \<lparr>vp_name = ''__glibc'', vp_version = ''2.17''\<rparr>)]
          @ [Successful_solve, Dry_run_complete,
             Json (FETCH (remove_channel example_solution ''file:///tmp/virtual''))]"
    by blast
  then have "fst (fst ?v) = Some (SystemExit (Code 0))"
    and "snd ?v
     = [Vendoring_file ''environment.yaml'', Dry_run_notice, Using_solver ''conda'',
        Solving_for_platform ''linux-64'', Solving_for_spec [''foo==1.0'', ''bar>=2'', ''pip''],
        Virtual_packages_header, Virtual_package ''__glibc'' ''2.17'', Successful_solve,
        Dry_run_complete, Json [pkg_foo, pkg_bar]]"
    by (simp_all add: example_query_list example_fetch)
  with n same show ?thesis by blast
qed

text \<open>
  The claim as the specification states it fails.  In the dry run of the example the
  directories and files stay as they were, but the resolved list is the last of ten lines
  on the standard output, not the only one.  For a platform that the repository of
  virtual packages was not made for, the dry run ends with \<^verbatim>\<open>KeyError\<close> after six
  lines and the list is not printed at all.  And when conda-lock stores the
  repository of virtual packages in a temporary directory, a file exists after the dry
  run that did not exist before it.
\<close>

theorem dry_run_list_not_sole_output:
  "\<not> path_exists example_world (joinpath [''home'', ''user''] ''env'')
   \<and> vendor sha256_hexdigest example_get example_json remdups example_conda_lock
        (Some ''env'') [''home'', ''user''] ''environment.yaml'' ''conda'' ''linux-64'' True False
        example_world
     = ((Some (SystemExit (Code 0)), example_world\<lparr>trace := [Solve]\<rparr>),
        [Vendoring_file ''environment.yaml'', Dry_run_notice, Using_solver ''conda'',
         Solving_for_platform ''linux-64'', Solving_for_spec [''foo==1.0'', ''bar>=2'', ''pip''],
         Virtual_packages_header, Virtual_package ''__glibc'' ''2.17'', Successful_solve,
         Dry_run_complete, Json [pkg_foo, pkg_bar]])
   \<and> snd (vendor sha256_hexdigest example_get example_json remdups example_conda_lock
        (Some ''env'') [''home'', ''user''] ''environment.yaml'' ''conda'' ''linux-64'' True False
        example_world) \<noteq> [Json [pkg_foo, pkg_bar]]
   \<and> vendor sha256_hexdigest example_get example_json remdups example_conda_lock
        (Some ''env'') [''home'', ''user''] ''environment.yaml'' ''conda'' ''linux-32'' True False
        example_world
     = ((Some KeyError, example_world),
        [Vendoring_file ''environment.yaml'', Dry_run_notice, Using_solver ''conda'',
         Solving_for_platform ''linux-32'', Solving_for_spec [''foo==1.0'', ''bar>=2'', ''pip''],
         Virtual_packages_header])
   \<and> files example_world [''tmp'', ''vpr'', ''repodata.json''] = None
   \<and> files (snd (fst (vendor sha256_hexdigest example_get example_json remdups
        example_conda_lock_tmp (Some ''env'') [''home'', ''user''] ''environment.yaml'' ''conda''
        ''linux-64'' True False example_world))) [''tmp'', ''vpr'', ''repodata.json'']
     = Some (Artifact [123, 125])
   \<and> fst (fst (vendor sha256_hexdigest example_get example_json remdups
        example_conda_lock_tmp (Some ''env'') [''home'', ''user''] ''environment.yaml'' ''conda''
        ''linux-64'' True False example_world)) = Some (SystemExit (Code 0))"
proof -
  have n: "\<not> path_exists example_world (joinpath [''home'', ''user''] ''env'')"
    by (simp add: example_paths path_exists_def example_world_def)
  have a: "vendor sha256_hexdigest example_get example_json remdups example_conda_lock
        (Some ''env'') [''home'', ''user''] ''environment.yaml'' ''conda'' ''linux-64'' True False
        example_world
     = ((Some (SystemExit (Code 0)), example_world\<lparr>trace := [Solve]\<rparr>),
        [Vendoring_file ''environment.yaml'', Dry_run_notice, Using_solver ''conda'',
         Solving_for_platform ''linux-64'', Solving_for_spec [''foo==1.0'', ''bar>=2'', ''pip''],
         Virtual_packages_header, Virtual_package ''__glibc'' ''2.17'', Successful_solve,
         Dry_run_complete, Json [pkg_foo, pkg_bar]])"
    unfolding vendor_dry_run [OF n] example_solve
    by (simp add: record_event_def example_world_def)
  have b: "vendor sha256_hexdigest example_get example_json remdups example_conda_lock
        (Some ''env'') [''home'', ''user''] ''environment.yaml'' ''conda'' ''linux-32'' True False
        example_world
     = ((Some KeyError, example_world),
        [Vendoring_file ''environment.yaml'', Dry_run_notice, Using_solver ''conda'',
         Solving_for_platform ''linux-32'', Solving_for_spec [''foo==1.0'', ''bar>=2'', ''pip''],
         Virtual_packages_header])"
    unfolding vendor_dry_run [OF n]
    by (simp add: solve_environment_def Let_def example_conda_lock_calls
        example_virtual_packages_fields example_query_list conda_lock_writes_def)
  have s: "success example_solution"
    by (simp add: example_solution_def)
  have c: "solve_environment example_conda_lock_tmp ''conda'' ''linux-64'' example_world
     = ((Inr [pkg_foo, pkg_bar],
         record_event Solve
           (example_world\<lparr>dirs := insert [''tmp'', ''vpr''] (insert [''tmp''] (dirs example_world)),
              files := (files example_world)([''tmp'', ''vpr'', ''repodata.json'']
                          \<mapsto> Artifact [123, 125])\<rparr>)),
        [Using_solver ''conda'', Solving_for_platform ''linux-64'',
         Solving_for_spec [''foo==1.0'', ''bar>=2'', ''pip''], Virtual_packages_header,
         Virtual_package ''__glibc'' ''2.17'', Successful_solve])"
    by (simp add: solve_environment_def Let_def example_conda_lock_tmp_def
        example_conda_lock_calls example_virtual_packages_fields example_query_list
        conda_lock_writes_def record_event_def s example_fetch remove_channel_success)
  have d: "files (snd (fst (vendor sha256_hexdigest example_get example_json remdups
        example_conda_lock_tmp (Some ''env'') [''home'', ''user''] ''environment.yaml'' ''conda''
        ''linux-64'' True False example_world))) [''tmp'', ''vpr'', ''repodata.json'']
     = Some (Artifact [123, 125])"
    and e: "fst (fst (vendor sha256_hexdigest example_get example_json remdups
        example_conda_lock_tmp (Some ''env'') [''home'', ''user''] ''environment.yaml'' ''conda''
        ''linux-64'' True False example_world)) = Some (SystemExit (Code 0))"
    unfolding vendor_dry_run [OF n] c
    by (simp_all add: record_event_def)
  have f: "files example_world [''tmp'', ''vpr'', ''repodata.json''] = None"
    by (simp add: example_world_def)
  from n a b d e f show ?thesis by simp
qed

text \<open>
  Claim C5.  When the destination root exists at the start, the vendor command exits
  with status 1 after two lines on the console, and the state is the one it started in:
  nothing was solved, requested, created or written.  When the root does not exist and
  the run is not a dry run, the run starts by making directories, and whenever it writes
  an index, an artifact or the manifest at all, its first three steps have made the root,
  the platform subdirectory and the \<^verbatim>\<open>noarch\<close> subdirectory, in this order and with
  success, so that the three were directories before conda-lock was called.  The three
  directories are made whenever the parent of the root is a directory, the platform is a
  single path component other than \<^verbatim>\<open>noarch\<close>, no component of the paths is
  \<^verbatim>\<open>..\<close>, and nothing exists under the two names.
\<close>

theorem destination_checked_then_created:
  "(path_exists w (joinpath cwd nm) \<longrightarrow>
      vendor hexdigest http_get json_of listing cl (Some nm) cwd file solver platform
        dry_run ironbank_gen w
      = ((Some (SystemExit (Code 1)), w),
         [Vendoring_file file, Destination_exists (joinpath cwd nm)])
      \<and> exit_code (Code 1) = 1)
   \<and> (\<not> path_exists w (joinpath cwd nm) \<longrightarrow>
        (\<exists>evs. trace (snd (fst (vendor hexdigest http_get json_of listing cl (Some nm) cwd
                                   file solver platform False ironbank_gen w))) = trace w @ evs
            \<and> ((\<exists>ev \<in> set evs. is_write ev) \<longrightarrow>
                 take 3 evs = [Mkdir (joinpath cwd nm),
                               Mkdir (joinpath (joinpath cwd nm) platform),
                               Mkdir (joinpath (joinpath cwd nm) ''noarch'')]
                 \<and> fst (make_directories (joinpath cwd nm) platform w) = None
                 \<and> {joinpath cwd nm, joinpath (joinpath cwd nm) platform,
                     joinpath (joinpath cwd nm) ''noarch''}
                   \<subseteq> dirs (snd (make_directories (joinpath cwd nm) platform w))))
        \<and> (butlast (joinpath cwd nm) \<in> dirs w \<and> files w (butlast (joinpath cwd nm)) = None
             \<and> butlast (joinpath (joinpath cwd nm) platform) = joinpath cwd nm
             \<and> joinpath (joinpath cwd nm) platform \<noteq> joinpath (joinpath cwd nm) ''noarch''
             \<and> ''..'' \<notin> set (joinpath (joinpath cwd nm) platform)
             \<and> \<not> path_exists w (joinpath (joinpath cwd nm) platform)
             \<and> \<not> path_exists w (joinpath (joinpath cwd nm) ''noarch'')
           \<longrightarrow> (\<exists>more. trace (snd (fst (vendor hexdigest http_get json_of listing cl (Some nm)
                                          cwd file solver platform False ironbank_gen w)))
                   = trace w @ [Mkdir (joinpath cwd nm),
                                Mkdir (joinpath (joinpath cwd nm) platform),
                                Mkdir (joinpath (joinpath cwd nm) ''noarch'')] @ more)
               \<and> fst (make_directories (joinpath cwd nm) platform w) = None
               \<and> {joinpath cwd nm, joinpath (joinpath cwd nm) platform,
                   joinpath (joinpath cwd nm) ''noarch''}
                 \<subseteq> dirs (snd (make_directories (joinpath cwd nm) platform w))))"
proof (intro conjI impI)
  assume "path_exists w (joinpath cwd nm)"
  then show "vendor hexdigest http_get json_of listing cl (Some nm) cwd file solver platform
      dry_run ironbank_gen w
      = ((Some (SystemExit (Code 1)), w),
         [Vendoring_file file, Destination_exists (joinpath cwd nm)])"
    by (rule vendor_exists)
next
  show "exit_code (Code 1) = 1" by simp
next
  let ?root = "joinpath cwd nm"
  let ?rp = "joinpath ?root platform"
  let ?rn = "joinpath ?root ''noarch''"
  let ?v = "vendor hexdigest http_get json_of listing cl (Some nm) cwd file solver
              platform False ironbank_gen w"
  assume n: "\<not> path_exists w ?root"
  obtain r1 w1 where m: "make_directories ?root platform w = (r1, w1)"
    by (cases "make_directories ?root platform w")
  show "\<exists>evs. trace (snd (fst ?v)) = trace w @ evs
            \<and> ((\<exists>ev \<in> set evs. is_write ev) \<longrightarrow>
                 take 3 evs = [Mkdir ?root, Mkdir ?rp, Mkdir ?rn]
                 \<and> fst (make_directories ?root platform w) = None
                 \<and> {?root, ?rp, ?rn} \<subseteq> dirs (snd (make_directories ?root platform w)))"
  proof (cases r1)
    case (Some e)
    with m have v: "fst ?v = (Some e, w1)"
      using vendor_mkdir_failed [OF n] by blast
    from make_directories_cases [OF m] Some
    obtain evs where "trace w1 = trace w @ evs" "\<forall>ev \<in> set evs. \<not> is_write ev"
      by auto
    then show ?thesis by (auto simp: v)
  next
    case None
    with m have m': "make_directories ?root platform w = (None, w1)" by simp
    from make_directories_cases [OF m']
    have t1: "trace w1 = trace w @ [Mkdir ?root, Mkdir ?rp, Mkdir ?rn]"
      and d1: "dirs w1 = insert ?rn (insert ?rp (insert ?root (dirs w)))"
      by auto
    from vendor_after_mkdir [OF n m', of hexdigest http_get json_of listing cl "file" solver
        ironbank_gen]
    obtain more where "trace (snd (fst ?v)) = trace w1 @ more"
      by (auto simp: prefix_def)
    with t1 have "trace (snd (fst ?v)) = trace w @ ([Mkdir ?root, Mkdir ?rp, Mkdir ?rn] @ more)"
      by simp
    moreover have "take 3 ([Mkdir ?root, Mkdir ?rp, Mkdir ?rn] @ more)
        = [Mkdir ?root, Mkdir ?rp, Mkdir ?rn]"
      by simp
    moreover have "fst (make_directories ?root platform w) = None"
      and "{?root, ?rp, ?rn} \<subseteq> dirs (snd (make_directories ?root platform w))"
      by (simp_all add: m' d1)
    ultimately show ?thesis by blast
  qed
  assume sane: "butlast ?root \<in> dirs w \<and> files w (butlast ?root) = None
             \<and> butlast ?rp = ?root \<and> ?rp \<noteq> ?rn \<and> ''..'' \<notin> set ?rp
             \<and> \<not> path_exists w ?rp \<and> \<not> path_exists w ?rn"
  with n show made: "fst (make_directories ?root platform w) = None"
    by (intro make_directories_ok) simp_all
  with m have m': "make_directories ?root platform w = (None, w1)" by simp
  from make_directories_cases [OF m']
  have t1: "trace w1 = trace w @ [Mkdir ?root, Mkdir ?rp, Mkdir ?rn]"
    and d1: "dirs w1 = insert ?rn (insert ?rp (insert ?root (dirs w)))"
    by auto
  from vendor_after_mkdir [OF n m', of hexdigest http_get json_of listing cl "file" solver
      ironbank_gen]
  obtain more where "trace (snd (fst ?v)) = trace w1 @ more"
    by (auto simp: prefix_def)
  with t1 show "\<exists>more. trace (snd (fst ?v)) = trace w @ [Mkdir ?root, Mkdir ?rp, Mkdir ?rn] @ more"
    by simp
  show "{?root, ?rp, ?rn} \<subseteq> dirs (snd (make_directories ?root platform w))"
    by (simp add: m' d1)
qed

text \<open>
  The example: a run into the directory of a finished mirror, and a run where only the
  working directory exists.
\<close>

theorem destination_checked_then_created_example:
  "path_exists example_mirror (joinpath [''home'', ''user''] ''env'')
   \<and> vendor sha256_hexdigest example_get example_json remdups example_conda_lock (Some ''env'')
       [''home'', ''user''] ''environment.yaml'' ''conda'' ''linux-64'' False False example_mirror
     = ((Some (SystemExit (Code 1)), example_mirror),
        [Vendoring_file ''environment.yaml'', Destination_exists [''home'', ''user'', ''env'']])
   \<and> \<not> path_exists example_world (joinpath [''home'', ''user''] ''env'')
   \<and> butlast (joinpath [''home'', ''user''] ''env'') \<in> dirs example_world
   \<and> files example_world (butlast (joinpath [''home'', ''user''] ''env'')) = None
   \<and> butlast (joinpath (joinpath [''home'', ''user''] ''env'') ''linux-64'')
       = joinpath [''home'', ''user''] ''env''
   \<and> joinpath (joinpath [''home'', ''user''] ''env'') ''linux-64''
       \<noteq> joinpath (joinpath [''home'', ''user''] ''env'') ''noarch''
   \<and> ''..'' \<notin> set (joinpath (joinpath [''home'', ''user''] ''env'') ''linux-64'')
   \<and> \<not> path_exists example_world (joinpath (joinpath [''home'', ''user''] ''env'') ''linux-64'')
   \<and> \<not> path_exists example_world (joinpath (joinpath [''home'', ''user''] ''env'') ''noarch'')
   \<and> take 3 (trace (snd (fst (vendor sha256_hexdigest example_get example_json remdups
         example_conda_lock (Some ''env'') [''home'', ''user''] ''environment.yaml'' ''conda''
         ''linux-64'' False False example_world))))
     = [Mkdir [''home'', ''user'', ''env''], Mkdir [''home'', ''user'', ''env'', ''linux-64''],
        Mkdir [''home'', ''user'', ''env'', ''noarch'']]
   \<and> fst (make_directories [''home'', ''user'', ''env''] ''linux-64'' example_world) = None
   \<and> [''home'', ''user'', ''env'']
       \<in> dirs (snd (make_directories [''home'', ''user'', ''env''] ''linux-64'' example_world))
   \<and> [''home'', ''user'', ''env'', ''linux-64'']
       \<in> dirs (snd (make_directories [''home'', ''user'', ''env''] ''linux-64'' example_world))
   \<and> [''home'', ''user'', ''env'', ''noarch'']
       \<in> dirs (snd (make_directories [''home'', ''user'', ''env''] ''linux-64'' example_world))"
proof -
  let ?v = "\<lambda>w. vendor sha256_hexdigest example_get example_json remdups example_conda_lock
       (Some ''env'') [''home'', ''user''] ''environment.yaml'' ''conda'' ''linux-64'' False False w"
  note inst = destination_checked_then_created [of _ "[''home'', ''user'']" "''env''"
      sha256_hexdigest example_get example_json remdups example_conda_lock
      "''environment.yaml''" "''conda''" "''linux-64''" False False]
  have e: "path_exists example_mirror (joinpath [''home'', ''user''] ''env'')"
    by (simp add: example_paths path_exists_def example_mirror_def)
  with inst [of example_mirror]
  have "?v example_mirror
     = ((Some (SystemExit (Code 1)), example_mirror),
        [Vendoring_file ''environment.yaml'',
         Destination_exists (joinpath [''home'', ''user''] ''env'')])"
    by blast
  then have a: "?v example_mirror
     = ((Some (SystemExit (Code 1)), example_mirror),
        [Vendoring_file ''environment.yaml'', Destination_exists [''home'', ''user'', ''env'']])"
    by (simp add: example_paths)
  have n: "\<not> path_exists example_world (joinpath [''home'', ''user''] ''env'')"
    by (simp add: example_paths path_exists_def example_world_def)
  have sane: "butlast (joinpath [''home'', ''user''] ''env'') \<in> dirs example_world"
    "files example_world (butlast (joinpath [''home'', ''user''] ''env'')) = None"
    "butlast (joinpath (joinpath [''home'', ''user''] ''env'') ''linux-64'')
       = joinpath [''home'', ''user''] ''env''"
    "joinpath (joinpath [''home'', ''user''] ''env'') ''linux-64''
       \<noteq> joinpath (joinpath [''home'', ''user''] ''env'') ''noarch''"
    "''..'' \<notin> set (joinpath (joinpath [''home'', ''user''] ''env'') ''linux-64'')"
    "\<not> path_exists example_world (joinpath (joinpath [''home'', ''user''] ''env'') ''linux-64'')"
    "\<not> path_exists example_world (joinpath (joinpath [''home'', ''user''] ''env'') ''noarch'')"
    by (simp_all add: example_paths path_exists_def example_world_def)
  from inst [of example_world] n sane
  obtain more where t: "trace (snd (fst (?v example_world)))
      = trace example_world @ [Mkdir (joinpath [''home'', ''user''] ''env''),
          Mkdir (joinpath (joinpath [''home'', ''user''] ''env'') ''linux-64''),
          Mkdir (joinpath (joinpath [''home'', ''user''] ''env'') ''noarch'')] @ more"
    and f: "fst (make_directories (joinpath [''home'', ''user''] ''env'') ''linux-64''
                   example_world) = None"
    and d: "{joinpath [''home'', ''user''] ''env'',
             joinpath (joinpath [''home'', ''user''] ''env'') ''linux-64'',
             joinpath (joinpath [''home'', ''user''] ''env'') ''noarch''}
           \<subseteq> dirs (snd (make_directories (joinpath [''home'', ''user''] ''env'') ''linux-64''
                             example_world))"
    by blast
  from t have t': "take 3 (trace (snd (fst (?v example_world))))
     = [Mkdir [''home'', ''user'', ''env''], Mkdir [''home'', ''user'', ''env'', ''linux-64''],
        Mkdir [''home'', ''user'', ''env'', ''noarch'']]"
    by (simp add: example_paths example_world_def)
  from f have f': "fst (make_directories [''home'', ''user'', ''env''] ''linux-64'' example_world)
      = None"
    by (simp add: example_paths)
  from d have d': "[''home'', ''user'', ''env'']
       \<in> dirs (snd (make_directories [''home'', ''user'', ''env''] ''linux-64'' example_world))"
    "[''home'', ''user'', ''env'', ''linux-64'']
       \<in> dirs (snd (make_directories [''home'', ''user'', ''env''] ''linux-64'' example_world))"
    "[''home'', ''user'', ''env'', ''noarch'']
       \<in> dirs (snd (make_directories [''home'', ''user'', ''env''] ''linux-64'' example_world))"
    by (simp_all add: example_paths)
  from e a n sane t' f' d' show ?thesis
    by blast
qed

subsection \<open>The example run from start to end\<close>

text \<open>
  The environment resolves to one package of \<^verbatim>\<open>linux-64\<close> and one of \<^verbatim>\<open>noarch\<close>.
  The run makes the three directories, writes an index with one entry into each
  subdirectory, and stores the two verified artifacts.
\<close>

lemma example_make_directories: "make_directories [''home'', ''user'', ''env''] ''linux-64'' example_world = (None, example_after_mkdir)"
  by (simp add: make_directories_def mkdir_def path_exists_def example_paths record_event_def
      example_world_def example_after_mkdir_def)

lemma example_jobs: "repodata_jobs (remdups (map channel [pkg_foo, pkg_bar]))
        (remdups (map subdir [pkg_foo, pkg_bar]))
      = [(''linux-64'', ''https://repo.example/main/linux-64''),
         (''noarch'', ''https://repo.example/main/noarch'')]"
  by (simp add: repodata_jobs_def pkg_foo_def pkg_bar_def sublist_Cons_right)

lemma example_documents: "reconstruct_repodata [''home'', ''user'', ''env'', ''linux-64''] [pkg_foo, pkg_bar] index_linux
      = \<lparr>info_subdir = ''linux-64'', rd_packages = [(''foo-1.0-0.tar.bz2'', ''foo 1.0'')],
         rd_packages_conda = []\<rparr>"
    "reconstruct_repodata [''home'', ''user'', ''env'', ''noarch''] [pkg_foo, pkg_bar] index_noarch
      = \<lparr>info_subdir = ''noarch'', rd_packages = [],
         rd_packages_conda = [(''bar-2.0-0.conda'', ''bar 2.0'')]\<rparr>"
    by (simp_all add: reconstruct_repodata_def Let_def path_name_def index_linux_def
        index_noarch_def get_partition_def pkg_foo_def pkg_bar_def)

lemma example_create_repodata_json: "create_repodata_json example_get example_json remdups [pkg_foo, pkg_bar]
     [''home'', ''user'', ''env''] (record_event Solve example_after_mkdir) = (None, example_after_index)"
  apply (simp only: create_repodata_json_def Let_def example_jobs)
  apply (simp add: reconstruct_repodata_json_def Let_def example_get_def example_json_def
        write_file_def example_paths record_event_def joinpath_repodata example_documents example_after_mkdir_def example_after_index_def)
  done

lemma example_fields: "subdir pkg_foo = ''linux-64''" "subdir pkg_bar = ''noarch''"
    "fn pkg_foo = ''foo-1.0-0.tar.bz2''" "fn pkg_bar = ''bar-2.0-0.conda''"
    "url pkg_foo = ''https://repo.example/main/linux-64/foo-1.0-0.tar.bz2''"
    "url pkg_bar = ''https://repo.example/main/noarch/bar-2.0-0.conda''"
    "sha256 pkg_foo = Some (sha256_hexdigest [])" "sha256 pkg_bar = Some (sha256_hexdigest [])"
    by (simp_all add: pkg_foo_def pkg_bar_def sha256_hexdigest_empty)

lemma example_download_packages: "download_packages sha256_hexdigest example_get [pkg_foo, pkg_bar]
     [''home'', ''user'', ''env''] ''linux-64'' example_after_index = (None, example_vendored)"
  by (simp add: Let_def path_exists_def is_dir_def example_fields example_get_def write_file_def
        example_paths record_event_def example_after_index_def example_vendored_def)

lemma example_vendor:
  "vendor sha256_hexdigest example_get example_json remdups example_conda_lock (Some ''env'')
     [''home'', ''user''] ''environment.yaml'' ''conda'' ''linux-64'' False False example_world
   = ((None, example_vendored),
      [Vendoring_file ''environment.yaml'', Using_solver ''conda'',
       Solving_for_platform ''linux-64'', Solving_for_spec [''foo==1.0'', ''bar>=2'', ''pip''],
       Virtual_packages_header, Virtual_package ''__glibc'' ''2.17'', Successful_solve,
       Checksums_validated, Vendoring_complete, Vendored_channel [''home'', ''user'', ''env'']])"
proof -
  have n: "\<not> path_exists example_world [''home'', ''user'', ''env'']"
    by (simp add: path_exists_def example_world_def)
  show ?thesis
    by (simp add: vendor_def Let_def example_paths n example_make_directories example_solve
        example_create_repodata_json example_download_packages del: download_packages.simps)
qed

text \<open>
  With \<^verbatim>\<open>..\<close> for the platform the run ends at the second \<^verbatim>\<open>Path.mkdir\<close>: the
  root has been made, and \<^verbatim>\<open>..\<close> under it exists.
\<close>

lemma example_platform_parent:
  "vendor sha256_hexdigest example_get example_json remdups example_conda_lock (Some ''env'')
     [''home'', ''user''] ''environment.yaml'' ''conda'' ''..'' False False example_world
   = ((Some FileExistsError,
       example_world\<lparr>dirs := insert [''home'', ''user'', ''env''] (dirs example_world),
                      trace := [Mkdir [''home'', ''user'', ''env'']]\<rparr>),
      [Vendoring_file ''environment.yaml''])"
proof -
  have p: "joinpath [''home'', ''user'', ''env''] ''..'' = [''home'', ''user'', ''env'', ''..'']"
    by (simp add: joinpath_def is_absolute_def parts_def)
  show ?thesis
    by (simp add: vendor_def Let_def example_paths p make_directories_def mkdir_def
        path_exists_def record_event_def example_world_def)
qed

end

